theory Spec2Isabelle
  imports Main
begin

section \<open>JavaScript values and objects\<close>

text \<open>
  The storage layer (\<^verbatim>\<open>server/storage.ts\<close>) moves plain JavaScript objects between a
  JSON document and a relational store. A value is one of the scalars that a row or a
  JSON document can carry; \<open>JDate\<close> is the \<^verbatim>\<open>Date\<close> object the driver returns for a
  timestamp column (its argument is the instant). JavaScript numbers are modelled as
  integers: every number the code computes with is a row id.

  An object is a finite map from property names to values; a property that is absent
  reads as \<^verbatim>\<open>undefined\<close>, which is \<open>None\<close> here.
\<close>

datatype jsval = JNull | JNum int | JStr string | JBool bool | JDate int

type_synonym obj = "string \<rightharpoonup> jsval"

text \<open>Truthiness, as tested by \<^verbatim>\<open>if (x)\<close>, \<^verbatim>\<open>x ? a : b\<close> and \<^verbatim>\<open>x || y\<close>.\<close>

fun truthy :: "jsval option \<Rightarrow> bool" where
  "truthy None = False"
| "truthy (Some JNull) = False"
| "truthy (Some (JNum n)) = (n \<noteq> 0)"
| "truthy (Some (JStr s)) = (s \<noteq> [])"
| "truthy (Some (JBool b)) = b"
| "truthy (Some (JDate t)) = True"

text \<open>
  \<^verbatim>\<open>Number(x)\<close>. The result is an integer, a number that is not an integer (a
  fraction or an infinity, named here by its canonical text: no arithmetic is done on
  it) or \<^verbatim>\<open>NaN\<close>; a \<^verbatim>\<open>Map\<close> treats \<^verbatim>\<open>NaN\<close> as a key equal to itself and
  the two zeros as one key.

  What \<^verbatim>\<open>Number\<close> makes of a string is the language's own affair (blanks, signs,
  fractions, exponents, hexadecimal, rounding of long digit runs). It is not part of
  the repository, so it is a parameter of the model: \<open>num s\<close> is \<^verbatim>\<open>Number(s)\<close>
  for a string \<open>s\<close>, and every statement below holds for every such \<open>num\<close>.
\<close>

datatype jsnum = NumV int | NotInt string | NaN

fun Number :: "(string \<Rightarrow> jsnum) \<Rightarrow> jsval option \<Rightarrow> jsnum" where
  "Number num None = NaN"
| "Number num (Some JNull) = NumV 0"
| "Number num (Some (JNum n)) = NumV n"
| "Number num (Some (JStr s)) = num s"
| "Number num (Some (JBool b)) = NumV (if b then 1 else 0)"
| "Number num (Some (JDate t)) = NumV t"

text \<open>
  Object rest destructuring \<^verbatim>\<open>const { k1, ..., kn, ...rest } = o\<close>: \<open>omit [k1, ..., kn] o\<close>
  is \<^verbatim>\<open>rest\<close>. The object spread \<^verbatim>\<open>{ ...rest, k: v }\<close> is the map update
  \<open>rest(k \<mapsto> v)\<close>.
\<close>

definition omit :: "string list \<Rightarrow> obj \<Rightarrow> obj" where
  "omit ks ob = (\<lambda>k. if k \<in> set ks then None else ob k)"

section \<open>The schema (\<^verbatim>\<open>shared/schema.ts\<close>)\<close>

datatype tbl =
    Users | Customers | Jobs | Expenses | Inventory | Notes | Travel
  | Workers | Attendance | JobImages | WorkerDocuments | CustomerImages

text \<open>
  What the store fills in for a column that an insert leaves out: nothing (the column
  becomes NULL), the next value of the table's id sequence (\<^verbatim>\<open>serial\<close>), a constant
  (\<^verbatim>\<open>.default(v)\<close>) or the current time (\<^verbatim>\<open>.defaultNow()\<close>).
\<close>

datatype dflt = NoDefault | Serial | Const jsval | Now

record column =
  cname :: string
  notNull :: bool
  dflt :: dflt
  refs :: "tbl option"

definition col :: "string \<Rightarrow> bool \<Rightarrow> dflt \<Rightarrow> tbl option \<Rightarrow> column" where
  "col n nn d r = \<lparr>cname = n, notNull = nn, dflt = d, refs = r\<rparr>"

text \<open>
  The columns of each table under their TypeScript property names, in the order of the
  schema file. \<^verbatim>\<open>serial("id").primaryKey()\<close> is a NOT NULL column filled from the
  sequence; numeric columns hold strings, as the driver returns them.
\<close>

fun columns :: "tbl \<Rightarrow> column list" where
  "columns Customers =
    [col ''id'' True Serial None,
     col ''userId'' True NoDefault (Some Users),
     col ''name'' True NoDefault None,
     col ''phone'' True NoDefault None,
     col ''address'' True NoDefault None]"
| "columns Jobs =
    [col ''id'' True Serial None,
     col ''userId'' True NoDefault (Some Users),
     col ''jobId'' False NoDefault None,
     col ''jobName'' False NoDefault None,
     col ''customerId'' False NoDefault (Some Customers),
     col ''category'' True (Const (JStr ''Interior painting'')) None,
     col ''description'' True NoDefault None,
     col ''location'' True NoDefault None,
     col ''status'' True (Const (JStr ''quoted'')) None,
     col ''quotedAmount'' True NoDefault None,
     col ''agreedAmount'' True (Const (JStr ''0'')) None,
     col ''paidAmount'' True (Const (JStr ''0'')) None,
     col ''startDate'' False NoDefault None,
     col ''endDate'' False NoDefault None]"
| "columns Expenses =
    [col ''id'' True Serial None,
     col ''userId'' True NoDefault (Some Users),
     col ''jobId'' False NoDefault (Some Jobs),
     col ''category'' True NoDefault None,
     col ''description'' True NoDefault None,
     col ''amount'' True NoDefault None,
     col ''paidAmount'' True (Const (JStr ''0'')) None,
     col ''paidFull'' True (Const (JBool False)) None,
     col ''date'' True NoDefault None,
     col ''isRequired'' True (Const (JBool True)) None]"
| "columns Inventory =
    [col ''id'' True Serial None,
     col ''userId'' True NoDefault (Some Users),
     col ''jobId'' False NoDefault (Some Jobs),
     col ''name'' True NoDefault None,
     col ''category'' True NoDefault None,
     col ''quantity'' True NoDefault None,
     col ''unit'' True NoDefault None,
     col ''costPerUnit'' True NoDefault None,
     col ''assignedToJobId'' False NoDefault (Some Jobs)]"
| "columns Notes =
    [col ''id'' True Serial None,
     col ''userId'' True NoDefault (Some Users),
     col ''type'' True (Const (JStr ''note'')) None,
     col ''section'' True NoDefault None,
     col ''referenceId'' False NoDefault None,
     col ''attribute'' False NoDefault None,
     col ''content'' True NoDefault None,
     col ''createdAt'' True Now None]"
| "columns Travel =
    [col ''id'' True Serial None,
     col ''userId'' True NoDefault (Some Users),
     col ''jobId'' False NoDefault (Some Jobs),
     col ''date'' True NoDefault None,
     col ''kilometers'' True NoDefault None,
     col ''fuelCost'' True NoDefault None]"
| "columns Workers =
    [col ''id'' True Serial None,
     col ''userId'' True NoDefault (Some Users),
     col ''jobId'' False NoDefault (Some Jobs),
     col ''name'' True NoDefault None,
     col ''role'' True NoDefault None,
     col ''phone'' False NoDefault None,
     col ''address'' False NoDefault None,
     col ''documentUrl'' False NoDefault None,
     col ''dailyWage'' True NoDefault None,
     col ''isActive'' True (Const (JBool True)) None,
     col ''rating'' False (Const (JNum 0)) None]"
| "columns Attendance =
    [col ''id'' True Serial None,
     col ''userId'' True NoDefault (Some Users),
     col ''workerId'' False NoDefault (Some Workers),
     col ''jobId'' False NoDefault (Some Jobs),
     col ''date'' True NoDefault None,
     col ''status'' True NoDefault None,
     col ''extraAllowance'' False (Const (JStr ''0'')) None]"
| "columns Users =
    [col ''id'' True Serial None,
     col ''username'' True NoDefault None,
     col ''password'' True NoDefault None]"
| "columns JobImages =
    [col ''id'' True Serial None,
     col ''userId'' True NoDefault (Some Users),
     col ''jobId'' True NoDefault (Some Jobs),
     col ''url'' True NoDefault None,
     col ''description'' False NoDefault None,
     col ''createdAt'' True Now None]"
| "columns WorkerDocuments =
    [col ''id'' True Serial None,
     col ''userId'' True NoDefault (Some Users),
     col ''workerId'' True NoDefault (Some Workers),
     col ''url'' True NoDefault None,
     col ''name'' True NoDefault None,
     col ''createdAt'' True Now None]"
| "columns CustomerImages =
    [col ''id'' True Serial None,
     col ''userId'' True NoDefault (Some Users),
     col ''customerId'' True NoDefault (Some Customers),
     col ''url'' True NoDefault None,
     col ''description'' False NoDefault None,
     col ''createdAt'' True Now None]"

definition allTables :: "tbl list" where
  "allTables = [Users, Customers, Jobs, Expenses, Inventory, Notes, Travel,
                Workers, Attendance, JobImages, WorkerDocuments, CustomerImages]"

section \<open>The relational store\<close>

text \<open>
  The store holds the rows of every table, in insertion order, and the last value each
  table's id sequence has handed out. A stored row is the object that \<^verbatim>\<open>select()\<close>
  and \<^verbatim>\<open>returning()\<close> give back: one property per column, NULL as \<open>JNull\<close>.
\<close>

record store =
  rows :: "tbl \<Rightarrow> obj list"
  seq :: "tbl \<Rightarrow> nat"

datatype error = NotNullViolation | UniqueViolation | ForeignKeyViolation | Error string


definition colValue :: "int \<Rightarrow> nat \<Rightarrow> obj \<Rightarrow> column \<Rightarrow> jsval" where
  "colValue now nid vals c =
     (case vals (cname c) of
        Some v \<Rightarrow> v
      | None \<Rightarrow>
          (case dflt c of
             NoDefault \<Rightarrow> JNull
           | Serial \<Rightarrow> JNum (int nid)
           | Const v \<Rightarrow> v
           | Now \<Rightarrow> JDate now))"

text \<open>
  The row an insert builds from the supplied values: a supplied property is stored as
  given (the driver's conversion of values to the column's SQL type is not modelled),
  a missing one gets the column's default, and properties that name no column are
  dropped. \<open>now\<close> is the time of the enclosing transaction and \<open>nid\<close> the next value
  of the table's sequence.
\<close>

definition mkRow :: "int \<Rightarrow> nat \<Rightarrow> tbl \<Rightarrow> obj \<Rightarrow> obj" where
  "mkRow now nid t vals = map_of (map (\<lambda>c. (cname c, colValue now nid vals c)) (columns t))"

definition notNullOk :: "tbl \<Rightarrow> obj \<Rightarrow> bool" where
  "notNullOk t r = list_all (\<lambda>c. if notNull c then r (cname c) \<noteq> Some JNull else True) (columns t)"

definition idTaken :: "store \<Rightarrow> tbl \<Rightarrow> obj \<Rightarrow> bool" where
  "idTaken s t r = list_ex (\<lambda>r'. r' ''id'' = r ''id'') (rows s t)"

definition hasId :: "store \<Rightarrow> tbl \<Rightarrow> jsval \<Rightarrow> bool" where
  "hasId s t v = list_ex (\<lambda>r. r ''id'' = Some v) (rows s t)"

definition refOk :: "store \<Rightarrow> tbl \<Rightarrow> jsval option \<Rightarrow> bool" where
  "refOk s t v = (case v of None \<Rightarrow> True | Some x \<Rightarrow> x = JNull \<or> hasId s t x)"

definition fkOk :: "store \<Rightarrow> tbl \<Rightarrow> obj \<Rightarrow> bool" where
  "fkOk s t r =
     list_all (\<lambda>c. case refs c of None \<Rightarrow> True | Some t' \<Rightarrow> refOk s t' (r (cname c))) (columns t)"

text \<open>
  \<^verbatim>\<open>insert(t).values(vals).returning()\<close>. The sequence is advanced when the id is left
  to its default, also when the statement then fails; the NOT NULL, primary key and
  foreign key constraints of the schema are checked; the new row is appended and
  returned.
\<close>

definition insert_values ::
  "int \<Rightarrow> tbl \<Rightarrow> obj \<Rightarrow> store \<Rightarrow> (error \<times> store) + (obj \<times> store)" where
  "insert_values now t vals s =
     (let nid = Suc (seq s t);
          s1 = (if vals ''id'' = None then s\<lparr>seq := (seq s)(t := nid)\<rparr> else s);
          r = mkRow now nid t vals
      in if \<not> notNullOk t r then Inl (NotNullViolation, s1)
         else if idTaken s t r then Inl (UniqueViolation, s1)
         else if \<not> fkOk s t r then Inl (ForeignKeyViolation, s1)
         else Inr (r, s1\<lparr>rows := (rows s1)(t := rows s1 t @ [r])\<rparr>))"

text \<open>\<^verbatim>\<open>eq(t.userId, userId)\<close> and \<^verbatim>\<open>and(eq(t.id, id), eq(t.userId, userId))\<close>.\<close>

definition owned :: "int \<Rightarrow> obj \<Rightarrow> bool" where
  "owned userId r = (r ''userId'' = Some (JNum userId))"

definition ownedId :: "int \<Rightarrow> int \<Rightarrow> obj \<Rightarrow> bool" where
  "ownedId ident userId r = (r ''id'' = Some (JNum ident) \<and> r ''userId'' = Some (JNum userId))"

text \<open>
  A row of table \<open>t\<close> is referenced when some row of some table holds its id in a column
  that \<^verbatim>\<open>.references\<close> \<open>t\<close>. The schema declares no \<^verbatim>\<open>onDelete\<close> action, so
  deleting a referenced row is refused.
\<close>

definition referenced :: "store \<Rightarrow> tbl \<Rightarrow> obj \<Rightarrow> bool" where
  "referenced s t r =
     (r ''id'' \<noteq> None \<and> r ''id'' \<noteq> Some JNull \<and>
      list_ex (\<lambda>t'. list_ex (\<lambda>c. refs c = Some t \<and> list_ex (\<lambda>r'. r' (cname c) = r ''id'') (rows s t'))
                             (columns t'))
              allTables)"

definition delete_where :: "tbl \<Rightarrow> (obj \<Rightarrow> bool) \<Rightarrow> store \<Rightarrow> (error \<times> store) + store" where
  "delete_where t P s =
     (let s' = s\<lparr>rows := (rows s)(t := filter (\<lambda>r. \<not> P r) (rows s t))\<rparr>
      in if list_ex (\<lambda>r. P r \<and> referenced s' t r) (rows s t)
         then Inl (ForeignKeyViolation, s)
         else Inr s')"

definition select_where :: "tbl \<Rightarrow> (obj \<Rightarrow> bool) \<Rightarrow> store \<Rightarrow> obj list" where
  "select_where t P s = filter P (rows s t)"

text \<open>
  \<^verbatim>\<open>update(t).set(updates).where(P).returning()\<close>. The argument of \<^verbatim>\<open>set\<close> is a
  \<^verbatim>\<open>Partial<InsertX>\<close>: its properties are columns of the table other than
  \<^verbatim>\<open>id\<close> and \<^verbatim>\<open>userId\<close>. Every column named in it is overwritten in the rows
  that match. The query builder refuses an argument that sets no column before any
  statement is sent (\<^verbatim>\<open>Error: No values to set\<close>).
\<close>

definition applySet :: "tbl \<Rightarrow> obj \<Rightarrow> obj \<Rightarrow> obj" where
  "applySet t updates r =
     (\<lambda>k. if k \<in> set (map cname (columns t)) \<and> k \<noteq> ''id'' \<and> k \<noteq> ''userId''
          then (case updates k of Some v \<Rightarrow> Some v | None \<Rightarrow> r k)
          else r k)"

definition setsNothing :: "tbl \<Rightarrow> obj \<Rightarrow> bool" where
  "setsNothing t updates = list_all (\<lambda>c. updates (cname c) = None) (columns t)"

definition update_where ::
  "tbl \<Rightarrow> obj \<Rightarrow> (obj \<Rightarrow> bool) \<Rightarrow> store \<Rightarrow> (error \<times> store) + (obj list \<times> store)" where
  "update_where t updates P s =
     (let changed = map (applySet t updates) (filter P (rows s t))
      in if setsNothing t updates then Inl (Error ''No values to set'', s)
         else if \<not> list_all (notNullOk t) changed then Inl (NotNullViolation, s)
         else if \<not> list_all (fkOk s t) changed then Inl (ForeignKeyViolation, s)
         else Inr (changed,
                   s\<lparr>rows := (rows s)(t := map (\<lambda>r. if P r then applySet t updates r else r) (rows s t))\<rparr>))"

text \<open>
  \<^verbatim>\<open>db.transaction(body)\<close>: when the body throws, the tables are rolled back to what
  they were and the error is rethrown; the sequences are not rolled back.
\<close>

definition transaction ::
  "(store \<Rightarrow> (error \<times> store) + store) \<Rightarrow> store \<Rightarrow> (error + unit) \<times> store" where
  "transaction body s =
     (case body s of
        Inl (e, s') \<Rightarrow> (Inl e, s\<lparr>seq := seq s'\<rparr>)
      | Inr s' \<Rightarrow> (Inr (), s'))"

section \<open>Sequencing awaited steps\<close>

definition bindE :: "'e + 'a \<Rightarrow> ('a \<Rightarrow> 'e + 'b) \<Rightarrow> 'e + 'b" where
  "bindE m f = (case m of Inl e \<Rightarrow> Inl e | Inr a \<Rightarrow> f a)"

text \<open>\<^verbatim>\<open>for (const x of xs) { await f(x) }\<close>: the first step that throws ends the loop.\<close>

fun forEach :: "('a \<Rightarrow> 'b \<Rightarrow> 'e + 'b) \<Rightarrow> 'a list \<Rightarrow> 'b \<Rightarrow> 'e + 'b" where
  "forEach f [] b = Inr b"
| "forEach f (x # xs) b = (case f x b of Inl e \<Rightarrow> Inl e | Inr b' \<Rightarrow> forEach f xs b')"


section \<open>Backup and restore (\<^verbatim>\<open>exportData\<close>, \<^verbatim>\<open>importData\<close>)\<close>

text \<open>
  A document is an object whose properties are lists of rows; \<^verbatim>\<open>data.customers || []\<close>
  reads a missing list as the empty one.
\<close>

type_synonym document = "string \<rightharpoonup> obj list"

definition orEmpty :: "obj list option \<Rightarrow> obj list" where
  "orEmpty l = (case l of None \<Rightarrow> [] | Some xs \<Rightarrow> xs)"

definition exportData :: "int \<Rightarrow> store \<Rightarrow> document" where
  "exportData userId s =
     [''customers'' \<mapsto> select_where Customers (owned userId) s,
      ''jobs'' \<mapsto> select_where Jobs (owned userId) s,
      ''expenses'' \<mapsto> select_where Expenses (owned userId) s,
      ''inventory'' \<mapsto> select_where Inventory (owned userId) s,
      ''notes'' \<mapsto> select_where Notes (owned userId) s,
      ''travel'' \<mapsto> select_where Travel (owned userId) s,
      ''workers'' \<mapsto> select_where Workers (owned userId) s,
      ''attendance'' \<mapsto> select_where Attendance (owned userId) s,
      ''jobImages'' \<mapsto> select_where JobImages (owned userId) s,
      ''workerDocuments'' \<mapsto> select_where WorkerDocuments (owned userId) s,
      ''customerImages'' \<mapsto> select_where CustomerImages (owned userId) s]"

text \<open>
  The id translation maps (\<^verbatim>\<open>new Map<number, number>()\<close>): old id of the document to
  the id the store assigned. \<open>getOrNull m k\<close> is \<^verbatim>\<open>m.get(k) ?? null\<close> and
  \<open>remap m x\<close> is \<^verbatim>\<open>x ? m.get(Number(x)) ?? null : null\<close>.
\<close>

type_synonym idmap = "jsnum \<rightharpoonup> jsval"

definition getOrNull :: "idmap \<Rightarrow> jsnum \<Rightarrow> jsval" where
  "getOrNull m k = (case m k of Some v \<Rightarrow> v | None \<Rightarrow> JNull)"

definition remap :: "(string \<Rightarrow> jsnum) \<Rightarrow> idmap \<Rightarrow> jsval option \<Rightarrow> jsval" where
  "remap num m x = (if truthy x then getOrNull m (Number num x) else JNull)"

text \<open>STEP 1: delete all existing data of the user, child tables first.\<close>

definition deleteOrder :: "tbl list" where
  "deleteOrder = [JobImages, WorkerDocuments, CustomerImages, Attendance, Inventory, Travel,
                  Expenses, Notes, Workers, Jobs, Customers]"

definition deleteAll :: "int \<Rightarrow> store \<Rightarrow> (error \<times> store) + store" where
  "deleteAll userId s = forEach (\<lambda>t. delete_where t (owned userId)) deleteOrder s"

text \<open>STEP 2 to STEP 4: the body of each loop that records new ids.\<close>

definition importCustomer ::
  "(string \<Rightarrow> jsnum) \<Rightarrow> int \<Rightarrow> int \<Rightarrow> obj \<Rightarrow> idmap \<times> store \<Rightarrow> (error \<times> store) + (idmap \<times> store)" where
  "importCustomer num userId now c = (\<lambda>(customerIdMap, s).
     let oldId = c ''id'';
         rest = omit [''id'', ''userId''] c
     in case insert_values now Customers (rest(''userId'' \<mapsto> JNum userId)) s of
          Inl e \<Rightarrow> Inl e
        | Inr (inserted, s') \<Rightarrow>
            Inr (if truthy oldId then customerIdMap(Number num oldId := inserted ''id'')
                 else customerIdMap, s'))"

definition importJob ::
  "(string \<Rightarrow> jsnum) \<Rightarrow> int \<Rightarrow> int \<Rightarrow> idmap \<Rightarrow> obj \<Rightarrow> idmap \<times> store \<Rightarrow> (error \<times> store) + (idmap \<times> store)" where
  "importJob num userId now customerIdMap j = (\<lambda>(jobIdMap, s).
     let oldId = j ''id'';
         customerId = j ''customerId'';
         rest = omit [''id'', ''userId'', ''customerId'', ''jobId''] j;
         newCustomerId = remap num customerIdMap customerId
     in case insert_values now Jobs
               (rest(''userId'' \<mapsto> JNum userId, ''customerId'' \<mapsto> newCustomerId)) s of
          Inl e \<Rightarrow> Inl e
        | Inr (inserted, s') \<Rightarrow>
            Inr (if truthy oldId then jobIdMap(Number num oldId := inserted ''id'')
                 else jobIdMap, s'))"

definition importWorker ::
  "(string \<Rightarrow> jsnum) \<Rightarrow> int \<Rightarrow> int \<Rightarrow> idmap \<Rightarrow> obj \<Rightarrow> idmap \<times> store \<Rightarrow> (error \<times> store) + (idmap \<times> store)" where
  "importWorker num userId now jobIdMap w = (\<lambda>(workerIdMap, s).
     let oldId = w ''id'';
         jobId = w ''jobId'';
         rest = omit [''id'', ''userId'', ''jobId''] w;
         newJobId = remap num jobIdMap jobId
     in case insert_values now Workers
               (rest(''userId'' \<mapsto> JNum userId, ''jobId'' \<mapsto> newJobId)) s of
          Inl e \<Rightarrow> Inl e
        | Inr (inserted, s') \<Rightarrow>
            Inr (if truthy oldId then workerIdMap(Number num oldId := inserted ''id'')
                 else workerIdMap, s'))"

text \<open>STEP 5 to STEP 9: the inserts whose result is not read.\<close>

definition insertOnly :: "int \<Rightarrow> tbl \<Rightarrow> obj \<Rightarrow> store \<Rightarrow> (error \<times> store) + store" where
  "insertOnly now t vals s =
     (case insert_values now t vals s of Inl e \<Rightarrow> Inl e | Inr (inserted, s') \<Rightarrow> Inr s')"

definition importExpense :: "(string \<Rightarrow> jsnum) \<Rightarrow> int \<Rightarrow> int \<Rightarrow> idmap \<Rightarrow> obj \<Rightarrow> store \<Rightarrow> (error \<times> store) + store" where
  "importExpense num userId now jobIdMap e s =
     (let jobId = e ''jobId'';
          rest = omit [''id'', ''userId'', ''jobId''] e
      in insertOnly now Expenses
           (rest(''userId'' \<mapsto> JNum userId, ''jobId'' \<mapsto> remap num jobIdMap jobId)) s)"

definition importInventory :: "(string \<Rightarrow> jsnum) \<Rightarrow> int \<Rightarrow> int \<Rightarrow> idmap \<Rightarrow> obj \<Rightarrow> store \<Rightarrow> (error \<times> store) + store" where
  "importInventory num userId now jobIdMap i s =
     (let jobId = i ''jobId'';
          assignedToJobId = i ''assignedToJobId'';
          rest = omit [''id'', ''userId'', ''jobId'', ''assignedToJobId''] i
      in insertOnly now Inventory
           (rest(''userId'' \<mapsto> JNum userId,
                 ''jobId'' \<mapsto> remap num jobIdMap jobId,
                 ''assignedToJobId'' \<mapsto> remap num jobIdMap assignedToJobId)) s)"

definition importTravel :: "(string \<Rightarrow> jsnum) \<Rightarrow> int \<Rightarrow> int \<Rightarrow> idmap \<Rightarrow> obj \<Rightarrow> store \<Rightarrow> (error \<times> store) + store" where
  "importTravel num userId now jobIdMap t s =
     (let jobId = t ''jobId'';
          rest = omit [''id'', ''userId'', ''jobId''] t
      in insertOnly now Travel
           (rest(''userId'' \<mapsto> JNum userId, ''jobId'' \<mapsto> remap num jobIdMap jobId)) s)"

definition newReferenceId :: "(string \<Rightarrow> jsnum) \<Rightarrow> idmap \<Rightarrow> idmap \<Rightarrow> idmap \<Rightarrow> jsval option \<Rightarrow> jsval option \<Rightarrow> jsval" where
  "newReferenceId num customerIdMap jobIdMap workerIdMap sec referenceId =
     (if truthy referenceId then
        (if sec = Some (JStr ''jobs'') \<or> sec = Some (JStr ''workers_attendance'')
           then getOrNull jobIdMap (Number num referenceId)
         else if sec = Some (JStr ''customers'')
           then getOrNull customerIdMap (Number num referenceId)
         else if sec = Some (JStr ''workers'')
           then getOrNull workerIdMap (Number num referenceId)
         else JNull)
      else JNull)"

definition importNote ::
  "(string \<Rightarrow> jsnum) \<Rightarrow> int \<Rightarrow> int \<Rightarrow> idmap \<Rightarrow> idmap \<Rightarrow> idmap \<Rightarrow> obj \<Rightarrow> store \<Rightarrow> (error \<times> store) + store" where
  "importNote num userId now customerIdMap jobIdMap workerIdMap n s =
     (let referenceId = n ''referenceId'';
          rest = omit [''id'', ''userId'', ''referenceId'', ''createdAt''] n
      in insertOnly now Notes
           (rest(''userId'' \<mapsto> JNum userId,
                 ''referenceId'' \<mapsto>
                    newReferenceId num customerIdMap jobIdMap workerIdMap (rest ''section'') referenceId)) s)"

definition importAttendance ::
  "(string \<Rightarrow> jsnum) \<Rightarrow> int \<Rightarrow> int \<Rightarrow> idmap \<Rightarrow> idmap \<Rightarrow> obj \<Rightarrow> store \<Rightarrow> (error \<times> store) + store" where
  "importAttendance num userId now jobIdMap workerIdMap a s =
     (let workerId = a ''workerId'';
          jobId = a ''jobId'';
          rest = omit [''id'', ''userId'', ''workerId'', ''jobId''] a
      in insertOnly now Attendance
           (rest(''userId'' \<mapsto> JNum userId,
                 ''workerId'' \<mapsto> remap num workerIdMap workerId,
                 ''jobId'' \<mapsto> remap num jobIdMap jobId)) s)"

text \<open>STEP 10 to STEP 12: rows whose parent cannot be translated are skipped.\<close>

definition importJobImage :: "(string \<Rightarrow> jsnum) \<Rightarrow> int \<Rightarrow> int \<Rightarrow> idmap \<Rightarrow> obj \<Rightarrow> store \<Rightarrow> (error \<times> store) + store" where
  "importJobImage num userId now jobIdMap ji s =
     (let jobId = ji ''jobId'';
          rest = omit [''id'', ''userId'', ''jobId'', ''createdAt''] ji;
          newJobId = remap num jobIdMap jobId
      in if truthy (Some newJobId)
         then insertOnly now JobImages (rest(''userId'' \<mapsto> JNum userId, ''jobId'' \<mapsto> newJobId)) s
         else Inr s)"

definition importWorkerDocument ::
  "(string \<Rightarrow> jsnum) \<Rightarrow> int \<Rightarrow> int \<Rightarrow> idmap \<Rightarrow> obj \<Rightarrow> store \<Rightarrow> (error \<times> store) + store" where
  "importWorkerDocument num userId now workerIdMap wd s =
     (let workerId = wd ''workerId'';
          rest = omit [''id'', ''userId'', ''workerId'', ''createdAt''] wd;
          newWorkerId = remap num workerIdMap workerId
      in if truthy (Some newWorkerId)
         then insertOnly now WorkerDocuments
                (rest(''userId'' \<mapsto> JNum userId, ''workerId'' \<mapsto> newWorkerId)) s
         else Inr s)"

definition importCustomerImage ::
  "(string \<Rightarrow> jsnum) \<Rightarrow> int \<Rightarrow> int \<Rightarrow> idmap \<Rightarrow> obj \<Rightarrow> store \<Rightarrow> (error \<times> store) + store" where
  "importCustomerImage num userId now customerIdMap ci s =
     (let customerId = ci ''customerId'';
          rest = omit [''id'', ''userId'', ''customerId'', ''createdAt''] ci;
          newCustomerId = remap num customerIdMap customerId
      in if truthy (Some newCustomerId)
         then insertOnly now CustomerImages
                (rest(''userId'' \<mapsto> JNum userId, ''customerId'' \<mapsto> newCustomerId)) s
         else Inr s)"

text \<open>The callback passed to \<^verbatim>\<open>db.transaction\<close>, and \<^verbatim>\<open>importData\<close> itself.\<close>

definition importInserts ::
  "(string \<Rightarrow> jsnum) \<Rightarrow> int \<Rightarrow> int \<Rightarrow> document \<Rightarrow> store \<Rightarrow> (error \<times> store) + (idmap \<times> idmap \<times> idmap \<times> store)" where
  "importInserts num userId now data s1 =
     bindE (forEach (importCustomer num userId now) (orEmpty (data ''customers'')) (Map.empty, s1))
       (\<lambda>(customerIdMap, s2).
     bindE (forEach (importJob num userId now customerIdMap) (orEmpty (data ''jobs'')) (Map.empty, s2))
       (\<lambda>(jobIdMap, s3).
     bindE (forEach (importWorker num userId now jobIdMap) (orEmpty (data ''workers'')) (Map.empty, s3))
       (\<lambda>(workerIdMap, s4).
     bindE (forEach (importExpense num userId now jobIdMap) (orEmpty (data ''expenses'')) s4)
       (\<lambda>s5.
     bindE (forEach (importInventory num userId now jobIdMap) (orEmpty (data ''inventory'')) s5)
       (\<lambda>s6.
     bindE (forEach (importTravel num userId now jobIdMap) (orEmpty (data ''travel'')) s6)
       (\<lambda>s7.
     bindE (forEach (importNote num userId now customerIdMap jobIdMap workerIdMap)
              (orEmpty (data ''notes'')) s7)
       (\<lambda>s8.
     bindE (forEach (importAttendance num userId now jobIdMap workerIdMap)
              (orEmpty (data ''attendance'')) s8)
       (\<lambda>s9.
     bindE (forEach (importJobImage num userId now jobIdMap) (orEmpty (data ''jobImages'')) s9)
       (\<lambda>s10.
     bindE (forEach (importWorkerDocument num userId now workerIdMap)
              (orEmpty (data ''workerDocuments'')) s10)
       (\<lambda>s11.
     bindE (forEach (importCustomerImage num userId now customerIdMap)
              (orEmpty (data ''customerImages'')) s11)
       (\<lambda>s12. Inr (customerIdMap, jobIdMap, workerIdMap, s12))))))))))))"

definition importBody :: "(string \<Rightarrow> jsnum) \<Rightarrow> int \<Rightarrow> int \<Rightarrow> document \<Rightarrow> store \<Rightarrow> (error \<times> store) + store" where
  "importBody num userId now data s =
     bindE (deleteAll userId s) (\<lambda>s1.
     bindE (importInserts num userId now data s1) (\<lambda>(customerIdMap, jobIdMap, workerIdMap, s12).
       Inr s12))"

definition importData :: "(string \<Rightarrow> jsnum) \<Rightarrow> int \<Rightarrow> int \<Rightarrow> document \<Rightarrow> store \<Rightarrow> (error + unit) \<times> store" where
  "importData num userId now data s = transaction (importBody num userId now data) s"

section \<open>Auxiliary notions for the statements and proofs\<close>

text \<open>The rows of a table that belong to a user, and those that do not.\<close>

definition others :: "int \<Rightarrow> store \<Rightarrow> tbl \<Rightarrow> obj list" where
  "others userId s t = filter (\<lambda>r. \<not> owned userId r) (rows s t)"

definition mine :: "int \<Rightarrow> store \<Rightarrow> tbl \<Rightarrow> obj list" where
  "mine userId s t = filter (owned userId) (rows s t)"

text \<open>
  The twelve loop bodies of \<^verbatim>\<open>importData\<close> have one shape: compute the object handed
  to \<^verbatim>\<open>values\<close> from the document row (or decide to skip the row), insert it, and
  for the first three loops record the new id under the old one. The functions below
  name the object each loop computes; \<open>genStep\<close> and \<open>genStepS\<close> are the common shape,
  with and without the id map. The lemmas \<open>import_gen\<close> show that every loop body of
  the source is an instance.
\<close>

definition customerVals :: "int \<Rightarrow> obj \<Rightarrow> obj option" where
  "customerVals userId c = Some ((omit [''id'', ''userId''] c)(''userId'' \<mapsto> JNum userId))"

definition jobVals :: "(string \<Rightarrow> jsnum) \<Rightarrow> int \<Rightarrow> idmap \<Rightarrow> obj \<Rightarrow> obj option" where
  "jobVals num userId customerIdMap j =
     Some ((omit [''id'', ''userId'', ''customerId'', ''jobId''] j)
             (''userId'' \<mapsto> JNum userId, ''customerId'' \<mapsto> remap num customerIdMap (j ''customerId'')))"

definition workerVals :: "(string \<Rightarrow> jsnum) \<Rightarrow> int \<Rightarrow> idmap \<Rightarrow> obj \<Rightarrow> obj option" where
  "workerVals num userId jobIdMap w =
     Some ((omit [''id'', ''userId'', ''jobId''] w)
             (''userId'' \<mapsto> JNum userId, ''jobId'' \<mapsto> remap num jobIdMap (w ''jobId'')))"

definition expenseVals :: "(string \<Rightarrow> jsnum) \<Rightarrow> int \<Rightarrow> idmap \<Rightarrow> obj \<Rightarrow> obj option" where
  "expenseVals num userId jobIdMap e =
     Some ((omit [''id'', ''userId'', ''jobId''] e)
             (''userId'' \<mapsto> JNum userId, ''jobId'' \<mapsto> remap num jobIdMap (e ''jobId'')))"

definition inventoryVals :: "(string \<Rightarrow> jsnum) \<Rightarrow> int \<Rightarrow> idmap \<Rightarrow> obj \<Rightarrow> obj option" where
  "inventoryVals num userId jobIdMap i =
     Some ((omit [''id'', ''userId'', ''jobId'', ''assignedToJobId''] i)
             (''userId'' \<mapsto> JNum userId,
              ''jobId'' \<mapsto> remap num jobIdMap (i ''jobId''),
              ''assignedToJobId'' \<mapsto> remap num jobIdMap (i ''assignedToJobId'')))"

definition travelVals :: "(string \<Rightarrow> jsnum) \<Rightarrow> int \<Rightarrow> idmap \<Rightarrow> obj \<Rightarrow> obj option" where
  "travelVals num userId jobIdMap t =
     Some ((omit [''id'', ''userId'', ''jobId''] t)
             (''userId'' \<mapsto> JNum userId, ''jobId'' \<mapsto> remap num jobIdMap (t ''jobId'')))"

definition noteVals :: "(string \<Rightarrow> jsnum) \<Rightarrow> int \<Rightarrow> idmap \<Rightarrow> idmap \<Rightarrow> idmap \<Rightarrow> obj \<Rightarrow> obj option" where
  "noteVals num userId customerIdMap jobIdMap workerIdMap n =
     Some ((omit [''id'', ''userId'', ''referenceId'', ''createdAt''] n)
             (''userId'' \<mapsto> JNum userId,
              ''referenceId'' \<mapsto>
                 newReferenceId num customerIdMap jobIdMap workerIdMap
                   (omit [''id'', ''userId'', ''referenceId'', ''createdAt''] n ''section'')
                   (n ''referenceId'')))"

definition attendanceVals :: "(string \<Rightarrow> jsnum) \<Rightarrow> int \<Rightarrow> idmap \<Rightarrow> idmap \<Rightarrow> obj \<Rightarrow> obj option" where
  "attendanceVals num userId jobIdMap workerIdMap a =
     Some ((omit [''id'', ''userId'', ''workerId'', ''jobId''] a)
             (''userId'' \<mapsto> JNum userId,
              ''workerId'' \<mapsto> remap num workerIdMap (a ''workerId''),
              ''jobId'' \<mapsto> remap num jobIdMap (a ''jobId'')))"

definition imageVals :: "(string \<Rightarrow> jsnum) \<Rightarrow> string \<Rightarrow> int \<Rightarrow> idmap \<Rightarrow> obj \<Rightarrow> obj option" where
  "imageVals num parent userId parentIdMap x =
     (if truthy (Some (remap num parentIdMap (x parent)))
      then Some ((omit [''id'', ''userId'', parent, ''createdAt''] x)
                   (''userId'' \<mapsto> JNum userId, parent \<mapsto> remap num parentIdMap (x parent)))
      else None)"

definition genStep ::
  "(string \<Rightarrow> jsnum) \<Rightarrow> int \<Rightarrow> tbl \<Rightarrow> (obj \<Rightarrow> obj option) \<Rightarrow> obj \<Rightarrow> idmap \<times> store \<Rightarrow> (error \<times> store) + (idmap \<times> store)" where
  "genStep num now t f x = (\<lambda>(m, s).
     case f x of
       None \<Rightarrow> Inr (m, s)
     | Some vals \<Rightarrow>
         (case insert_values now t vals s of
            Inl e \<Rightarrow> Inl e
          | Inr (inserted, s') \<Rightarrow>
              Inr (if truthy (x ''id'') then m(Number num (x ''id'') := inserted ''id'') else m, s')))"

definition genStepS ::
  "int \<Rightarrow> tbl \<Rightarrow> (obj \<Rightarrow> obj option) \<Rightarrow> obj \<Rightarrow> store \<Rightarrow> (error \<times> store) + store" where
  "genStepS now t f x s =
     (case f x of None \<Rightarrow> Inr s | Some vals \<Rightarrow> insertOnly now t vals s)"

text \<open>
  What a loop that starts with the sequence at \<open>n\<close> appends to its table, and the id map
  it builds: the rows that are not skipped receive the ids \<open>n + 1\<close>, \<open>n + 2\<close>, ... in
  document order.
\<close>

fun newRows :: "int \<Rightarrow> tbl \<Rightarrow> (obj \<Rightarrow> obj option) \<Rightarrow> obj list \<Rightarrow> nat \<Rightarrow> obj list" where
  "newRows now t f [] n = []"
| "newRows now t f (x # xs) n =
     (case f x of
        None \<Rightarrow> newRows now t f xs n
      | Some vals \<Rightarrow> mkRow now (Suc n) t vals # newRows now t f xs (Suc n))"

fun recordIds :: "(string \<Rightarrow> jsnum) \<Rightarrow> (obj \<Rightarrow> obj option) \<Rightarrow> idmap \<Rightarrow> obj list \<Rightarrow> nat \<Rightarrow> idmap" where
  "recordIds num f m [] n = m"
| "recordIds num f m (x # xs) n =
     (case f x of
        None \<Rightarrow> recordIds num f m xs n
      | Some vals \<Rightarrow>
          recordIds num f (if truthy (x ''id'') then m(Number num (x ''id'') \<mapsto> JNum (int (Suc n))) else m)
            xs (Suc n))"

text \<open>Every object the import inserts leaves the id to the store and carries the user's id.\<close>

definition importF :: "int \<Rightarrow> (obj \<Rightarrow> obj option) \<Rightarrow> bool" where
  "importF u f = (\<forall>x vals. f x = Some vals \<longrightarrow> vals ''id'' = None \<and> vals ''userId'' = Some (JNum u))"

text \<open>
  The document property each table is restored from, the id maps of a whole import
  (they depend on the store only through its sequences) and the rows it inserts into
  each table.
\<close>

fun docKey :: "tbl \<Rightarrow> string" where
  "docKey Users = ''users''"
| "docKey Customers = ''customers''"
| "docKey Jobs = ''jobs''"
| "docKey Expenses = ''expenses''"
| "docKey Inventory = ''inventory''"
| "docKey Notes = ''notes''"
| "docKey Travel = ''travel''"
| "docKey Workers = ''workers''"
| "docKey Attendance = ''attendance''"
| "docKey JobImages = ''jobImages''"
| "docKey WorkerDocuments = ''workerDocuments''"
| "docKey CustomerImages = ''customerImages''"

definition docRows :: "document \<Rightarrow> tbl \<Rightarrow> obj list" where
  "docRows data t = (if t = Users then [] else orEmpty (data (docKey t)))"

definition customerIds :: "(string \<Rightarrow> jsnum) \<Rightarrow> int \<Rightarrow> document \<Rightarrow> store \<Rightarrow> idmap" where
  "customerIds num u data s = recordIds num (customerVals u) Map.empty (docRows data Customers) (seq s Customers)"

definition jobIds :: "(string \<Rightarrow> jsnum) \<Rightarrow> int \<Rightarrow> document \<Rightarrow> store \<Rightarrow> idmap" where
  "jobIds num u data s =
     recordIds num (jobVals num u (customerIds num u data s)) Map.empty (docRows data Jobs) (seq s Jobs)"

definition workerIds :: "(string \<Rightarrow> jsnum) \<Rightarrow> int \<Rightarrow> document \<Rightarrow> store \<Rightarrow> idmap" where
  "workerIds num u data s =
     recordIds num (workerVals num u (jobIds num u data s)) Map.empty (docRows data Workers) (seq s Workers)"

fun tableVals :: "(string \<Rightarrow> jsnum) \<Rightarrow> int \<Rightarrow> idmap \<Rightarrow> idmap \<Rightarrow> idmap \<Rightarrow> tbl \<Rightarrow> obj \<Rightarrow> obj option" where
  "tableVals num u cm jm wm Users = (\<lambda>x. None)"
| "tableVals num u cm jm wm Customers = customerVals u"
| "tableVals num u cm jm wm Jobs = jobVals num u cm"
| "tableVals num u cm jm wm Workers = workerVals num u jm"
| "tableVals num u cm jm wm Expenses = expenseVals num u jm"
| "tableVals num u cm jm wm Inventory = inventoryVals num u jm"
| "tableVals num u cm jm wm Travel = travelVals num u jm"
| "tableVals num u cm jm wm Notes = noteVals num u cm jm wm"
| "tableVals num u cm jm wm Attendance = attendanceVals num u jm wm"
| "tableVals num u cm jm wm JobImages = imageVals num ''jobId'' u jm"
| "tableVals num u cm jm wm WorkerDocuments = imageVals num ''workerId'' u wm"
| "tableVals num u cm jm wm CustomerImages = imageVals num ''customerId'' u cm"

definition insertedRows :: "(string \<Rightarrow> jsnum) \<Rightarrow> int \<Rightarrow> int \<Rightarrow> document \<Rightarrow> store \<Rightarrow> tbl \<Rightarrow> obj list" where
  "insertedRows num u now data s t =
     newRows now t (tableVals num u (customerIds num u data s) (jobIds num u data s) (workerIds num u data s) t)
       (docRows data t) (seq s t)"

text \<open>
  The documents of the examples carry numbers, never strings, as ids and keys, so what
  \<^verbatim>\<open>Number\<close> makes of a string plays no part in them; they are run with a reader
  that takes no string for a number.
\<close>

definition exampleReader :: "string \<Rightarrow> jsnum" where
  "exampleReader str = NaN"

definition demoStore :: store where
  "demoStore =
     \<lparr>rows = (\<lambda>t. [])
        (Users := [[''id'' \<mapsto> JNum 1, ''username'' \<mapsto> JStr ''asha'', ''password'' \<mapsto> JStr ''x''],
                   [''id'' \<mapsto> JNum 2, ''username'' \<mapsto> JStr ''ben'', ''password'' \<mapsto> JStr ''y'']],
         Customers := [[''id'' \<mapsto> JNum 1, ''userId'' \<mapsto> JNum 1, ''name'' \<mapsto> JStr ''Alice'',
                        ''phone'' \<mapsto> JStr ''555'', ''address'' \<mapsto> JStr ''1 Rd''],
                       [''id'' \<mapsto> JNum 2, ''userId'' \<mapsto> JNum 2, ''name'' \<mapsto> JStr ''Bob'',
                        ''phone'' \<mapsto> JStr ''777'', ''address'' \<mapsto> JStr ''2 Rd'']],
         Jobs := [[''id'' \<mapsto> JNum 1, ''userId'' \<mapsto> JNum 1, ''jobId'' \<mapsto> JStr ''1I01012026'',
                   ''jobName'' \<mapsto> JNull, ''customerId'' \<mapsto> JNum 1,
                   ''category'' \<mapsto> JStr ''Interior painting'', ''description'' \<mapsto> JStr ''Paint hall'',
                   ''location'' \<mapsto> JStr ''1 Rd'', ''status'' \<mapsto> JStr ''quoted'',
                   ''quotedAmount'' \<mapsto> JStr ''100'', ''agreedAmount'' \<mapsto> JStr ''100'',
                   ''paidAmount'' \<mapsto> JStr ''0'', ''startDate'' \<mapsto> JNull, ''endDate'' \<mapsto> JNull]]),
      seq = (\<lambda>t. 0)(Users := 2, Customers := 2, Jobs := 1)\<rparr>"

definition brokenDoc :: document where
  "brokenDoc =
     [''customers'' \<mapsto> [[''id'' \<mapsto> JNum 1, ''name'' \<mapsto> JStr ''Carol'', ''phone'' \<mapsto> JStr ''888'',
                          ''address'' \<mapsto> JStr ''3 Rd'']],
      ''workers'' \<mapsto> [[''id'' \<mapsto> JNum 1, ''name'' \<mapsto> JStr ''Dev'']]]"

definition smallDoc :: document where
  "smallDoc =
     [''customers'' \<mapsto> [[''id'' \<mapsto> JNum 1, ''name'' \<mapsto> JStr ''Alice'', ''phone'' \<mapsto> JStr ''555'',
                          ''address'' \<mapsto> JStr ''1 Rd'']],
      ''jobs'' \<mapsto> [[''id'' \<mapsto> JNum 10, ''customerId'' \<mapsto> JNum 1, ''jobId'' \<mapsto> JStr ''1I01012026'',
                     ''category'' \<mapsto> JStr ''Interior painting'', ''description'' \<mapsto> JStr ''Paint hall'',
                     ''location'' \<mapsto> JStr ''1 Rd'', ''quotedAmount'' \<mapsto> JStr ''100'',
                     ''status'' \<mapsto> JStr ''quoted'']]]"

definition demoStoreSolo :: store where
  "demoStoreSolo = demoStore\<lparr>rows := (rows demoStore)(Customers := [hd (rows demoStore Customers)])\<rparr>"

definition plainTables :: "tbl list" where
  "plainTables = [Customers, Jobs, Workers, Expenses, Inventory, Travel, Notes, Attendance]"

definition idsOf :: "(string \<Rightarrow> jsnum) \<Rightarrow> int \<Rightarrow> document \<Rightarrow> store \<Rightarrow> tbl \<Rightarrow> idmap" where
  "idsOf num u data s t =
     (if t = Customers then customerIds num u data s
      else if t = Jobs then jobIds num u data s
      else if t = Workers then workerIds num u data s
      else Map.empty)"

definition fkEdges :: "(tbl \<times> string \<times> tbl) list" where
  "fkEdges =
     [(Jobs, ''customerId'', Customers),
      (Workers, ''jobId'', Jobs),
      (Expenses, ''jobId'', Jobs),
      (Inventory, ''jobId'', Jobs),
      (Inventory, ''assignedToJobId'', Jobs),
      (Travel, ''jobId'', Jobs),
      (Attendance, ''workerId'', Workers),
      (Attendance, ''jobId'', Jobs)]"

definition demoCustomer :: "int \<Rightarrow> string \<Rightarrow> obj" where
  "demoCustomer i n =
     [''id'' \<mapsto> JNum i, ''name'' \<mapsto> JStr n, ''phone'' \<mapsto> JStr ''555'', ''address'' \<mapsto> JStr ''1 Rd'']"

definition demoJob :: "int \<Rightarrow> int \<Rightarrow> obj" where
  "demoJob i c =
     [''id'' \<mapsto> JNum i, ''customerId'' \<mapsto> JNum c, ''jobId'' \<mapsto> JStr ''1I01012026'',
      ''category'' \<mapsto> JStr ''Interior painting'', ''description'' \<mapsto> JStr ''Paint hall'',
      ''location'' \<mapsto> JStr ''1 Rd'', ''quotedAmount'' \<mapsto> JStr ''100'', ''status'' \<mapsto> JStr ''quoted'']"

definition pairDoc :: document where
  "pairDoc = [''customers'' \<mapsto> [demoCustomer 1 ''Alice'', demoCustomer 2 ''Eve''],
              ''jobs'' \<mapsto> [demoJob 10 2, demoJob 11 1]]"

definition clashDoc :: document where
  "clashDoc = [''customers'' \<mapsto> [demoCustomer 0 ''Alice'', demoCustomer 5 ''Eve'', demoCustomer 5 ''Finn''],
               ''jobs'' \<mapsto> [demoJob 10 0, demoJob 11 5]]"

definition sectionMap :: "idmap \<Rightarrow> idmap \<Rightarrow> idmap \<Rightarrow> jsval option \<Rightarrow> idmap option" where
  "sectionMap customerIdMap jobIdMap workerIdMap sec =
     (if sec = Some (JStr ''jobs'') then Some jobIdMap
      else if sec = Some (JStr ''workers_attendance'') then Some jobIdMap
      else if sec = Some (JStr ''customers'') then Some customerIdMap
      else if sec = Some (JStr ''workers'') then Some workerIdMap
      else None)"

definition translateBySection ::
  "(string \<Rightarrow> jsnum) \<Rightarrow> idmap \<Rightarrow> idmap \<Rightarrow> idmap \<Rightarrow> jsval option \<Rightarrow> jsval option \<Rightarrow> jsval" where
  "translateBySection num customerIdMap jobIdMap workerIdMap sec referenceId =
     (case sectionMap customerIdMap jobIdMap workerIdMap sec of
        Some m \<Rightarrow> remap num m referenceId
      | None \<Rightarrow> JNull)"

definition noteDoc :: document where
  "noteDoc =
     [''customers'' \<mapsto> [demoCustomer 4 ''Alice''],
      ''jobs'' \<mapsto> [demoJob 10 4],
      ''notes'' \<mapsto>
        [[''id'' \<mapsto> JNum 1, ''type'' \<mapsto> JStr ''note'', ''section'' \<mapsto> JStr ''jobs'',
          ''referenceId'' \<mapsto> JNum 10, ''content'' \<mapsto> JStr ''second coat on Friday''],
         [''id'' \<mapsto> JNum 2, ''type'' \<mapsto> JStr ''note'', ''section'' \<mapsto> JStr ''customers'',
          ''referenceId'' \<mapsto> JNum 4, ''content'' \<mapsto> JStr ''prefers calls''],
         [''id'' \<mapsto> JNum 3, ''type'' \<mapsto> JStr ''log'', ''section'' \<mapsto> JStr ''inventory'',
          ''referenceId'' \<mapsto> JNum 10, ''content'' \<mapsto> JStr ''Initial assignment'']]]"

definition danglingDoc :: document where
  "danglingDoc =
     [''jobs'' \<mapsto> [demoJob 10 99],
      ''jobImages'' \<mapsto> [[''id'' \<mapsto> JNum 1, ''jobId'' \<mapsto> JNum 77, ''url'' \<mapsto> JStr ''/uploads/a.png'']]]"

definition sources :: "tbl \<Rightarrow> tbl list" where
  "sources t = filter (\<lambda>t'. list_ex (\<lambda>c. refs c = Some t) (columns t')) allTables"

fun orderOk :: "tbl list \<Rightarrow> tbl list \<Rightarrow> bool" where
  "orderOk finished [] = True"
| "orderOk finished (t # ts) = (list_all (\<lambda>t'. t' \<in> set finished) (sources t) \<and> orderOk (t # finished) ts)"

definition noForeignRefs :: "int \<Rightarrow> store \<Rightarrow> bool" where
  "noForeignRefs userId s =
     list_all (\<lambda>t'. list_all (\<lambda>c.
        case refs c of
          None \<Rightarrow> True
        | Some t \<Rightarrow>
            list_all (\<lambda>r'. owned userId r' \<or>
                          list_all (\<lambda>r. \<not> (owned userId r \<and> r' (cname c) = r ''id'')) (rows s t))
              (rows s t'))
        (columns t')) allTables"

definition crossStore :: store where
  "crossStore =
     \<lparr>rows = (\<lambda>t. [])
        (Users := [[''id'' \<mapsto> JNum 1, ''username'' \<mapsto> JStr ''asha'', ''password'' \<mapsto> JStr ''x''],
                   [''id'' \<mapsto> JNum 2, ''username'' \<mapsto> JStr ''ben'', ''password'' \<mapsto> JStr ''y'']],
         Customers := [[''id'' \<mapsto> JNum 1, ''userId'' \<mapsto> JNum 1, ''name'' \<mapsto> JStr ''Alice'',
                        ''phone'' \<mapsto> JStr ''555'', ''address'' \<mapsto> JStr ''1 Rd'']],
         Jobs := [[''id'' \<mapsto> JNum 1, ''userId'' \<mapsto> JNum 2, ''jobId'' \<mapsto> JStr ''1I01012026'',
                   ''jobName'' \<mapsto> JNull, ''customerId'' \<mapsto> JNum 1,
                   ''category'' \<mapsto> JStr ''Interior painting'', ''description'' \<mapsto> JStr ''Paint hall'',
                   ''location'' \<mapsto> JStr ''1 Rd'', ''status'' \<mapsto> JStr ''quoted'',
                   ''quotedAmount'' \<mapsto> JStr ''100'', ''agreedAmount'' \<mapsto> JStr ''100'',
                   ''paidAmount'' \<mapsto> JStr ''0'', ''startDate'' \<mapsto> JNull, ''endDate'' \<mapsto> JNull]]),
      seq = (\<lambda>t. 0)(Users := 2, Customers := 1, Jobs := 1)\<rparr>"

section \<open>Updating, deleting and creating rows (\<^verbatim>\<open>server/storage.ts\<close>)\<close>

text \<open>
  \<^verbatim>\<open>updateCustomer\<close>, \<^verbatim>\<open>updateJob\<close>, \<^verbatim>\<open>updateExpense\<close> and \<^verbatim>\<open>updateNote\<close>
  have one body: update the row with the given id and user, and throw
  \<^verbatim>\<open>new Error("... not found")\<close> when \<^verbatim>\<open>returning()\<close> gives no row.
\<close>

definition updateById ::
  "tbl \<Rightarrow> string \<Rightarrow> int \<Rightarrow> int \<Rightarrow> obj \<Rightarrow> store \<Rightarrow> (error \<times> store) + (obj \<times> store)" where
  "updateById t msg ident userId updates s =
     (case update_where t updates (ownedId ident userId) s of
        Inl e \<Rightarrow> Inl e
      | Inr (returned, s') \<Rightarrow>
          (case returned of
             [] \<Rightarrow> Inl (Error msg, s')
           | updated # _ \<Rightarrow> Inr (updated, s')))"


definition updateJob :: "int \<Rightarrow> int \<Rightarrow> obj \<Rightarrow> store \<Rightarrow> (error \<times> store) + (obj \<times> store)" where
  "updateJob = updateById Jobs ''Job not found''"
















text \<open>
  \<^verbatim>\<open>String(n)\<close> for a natural number and \<^verbatim>\<open>padStart(2, '0')\<close>. A string is a list of
  code units. \<^verbatim>\<open>toUpperCase()\<close> is the language's own function on strings: like
  \<^verbatim>\<open>Number\<close> on strings it is a parameter, \<open>upper\<close>, of the functions that call it.
\<close>

function showNat :: "nat \<Rightarrow> string" where
  "showNat n = (if n < 10 then [char_of (48 + n)] else showNat (n div 10) @ [char_of (48 + n mod 10)])"
  by pat_completeness auto

termination
  by (relation "measure id") auto

definition padStart2 :: "string \<Rightarrow> string" where
  "padStart2 str = replicate (2 - length str) (CHR ''0'') @ str"

text \<open>
  The clock reading of \<^verbatim>\<open>createJob\<close>: \<^verbatim>\<open>getDate()\<close>, \<^verbatim>\<open>getMonth()\<close> (0 to 11)
  and \<^verbatim>\<open>getFullYear()\<close>.
\<close>

record clock =
  getDate :: nat
  getMonth :: nat
  getFullYear :: nat

definition dateStr :: "clock \<Rightarrow> string" where
  "dateStr today =
     padStart2 (showNat (getDate today)) @ padStart2 (showNat (getMonth today + 1)) @
     showNat (getFullYear today)"

text \<open>\<^verbatim>\<open>(insertJob.category?.[0] || 'X').toUpperCase()\<close>\<close>

definition categoryInitial :: "(string \<Rightarrow> string) \<Rightarrow> obj \<Rightarrow> string" where
  "categoryInitial upper insertJob =
     upper (case insertJob ''category'' of Some (JStr (c # cs)) \<Rightarrow> [c] | _ \<Rightarrow> ''X'')"

text \<open>
  \<^verbatim>\<open>createJob\<close> of \<^verbatim>\<open>server/storage.ts\<close>: count the user's jobs, insert the job,
  then set its code by a second statement, keyed by the new id alone. The result is the
  row that the second statement returns (\<open>None\<close> when it returns none).
\<close>

definition createJob ::
  "(string \<Rightarrow> string) \<Rightarrow> obj \<Rightarrow> int \<Rightarrow> clock \<Rightarrow> int \<Rightarrow> store \<Rightarrow> (error \<times> store) + (obj option \<times> store)" where
  "createJob upper insertJob userId today now s =
     (let existingJobs = select_where Jobs (owned userId) s;
          jobNumber = length existingJobs + 1
      in case insert_values now Jobs
                (insertJob(''userId'' \<mapsto> JNum userId,
                           ''agreedAmount'' :=
                              (if truthy (insertJob ''agreedAmount'') then insertJob ''agreedAmount''
                               else insertJob ''quotedAmount''))) s of
           Inl e \<Rightarrow> Inl e
         | Inr (job, s1) \<Rightarrow>
             (let jobId = showNat jobNumber @ categoryInitial upper insertJob @ dateStr today
              in case update_where Jobs [''jobId'' \<mapsto> JStr jobId] (\<lambda>r. r ''id'' = job ''id'') s1 of
                   Inl e \<Rightarrow> Inl e
                 | Inr (returned, s2) \<Rightarrow>
                     Inr (case returned of [] \<Rightarrow> None | updatedJob # _ \<Rightarrow> Some updatedJob, s2)))"

text \<open>
  The older copy of the storage layer in the repository builds the code from the new
  row's database id instead: \<^verbatim>\<open>`#${job.id}${categoryInitial}${dateStr}`\<close>.
\<close>

definition showId :: "jsval option \<Rightarrow> string" where
  "showId v = (case v of Some (JNum n) \<Rightarrow> (if n < 0 then CHR ''-'' # showNat (nat (- n)) else showNat (nat n))
               | _ \<Rightarrow> ''undefined'')"

definition createJobById ::
  "(string \<Rightarrow> string) \<Rightarrow> obj \<Rightarrow> int \<Rightarrow> clock \<Rightarrow> int \<Rightarrow> store \<Rightarrow> (error \<times> store) + (obj option \<times> store)" where
  "createJobById upper insertJob userId today now s =
     (case insert_values now Jobs
             (insertJob(''userId'' \<mapsto> JNum userId,
                        ''agreedAmount'' :=
                           (if truthy (insertJob ''agreedAmount'') then insertJob ''agreedAmount''
                            else insertJob ''quotedAmount''))) s of
        Inl e \<Rightarrow> Inl e
      | Inr (job, s1) \<Rightarrow>
          (let jobId = ''#'' @ showId (job ''id'') @ categoryInitial upper insertJob @ dateStr today
           in case update_where Jobs [''jobId'' \<mapsto> JStr jobId] (\<lambda>r. r ''id'' = job ''id'') s1 of
                Inl e \<Rightarrow> Inl e
              | Inr (returned, s2) \<Rightarrow>
                  Inr (case returned of [] \<Rightarrow> None | updatedJob # _ \<Rightarrow> Some updatedJob, s2)))"

text \<open>
  The strings of the examples are ASCII; on those \<^verbatim>\<open>toUpperCase\<close> turns the letters a
  to z into capitals and leaves every other character as it is.
\<close>

definition upperAscii :: "string \<Rightarrow> string" where
  "upperAscii str =
     map (\<lambda>c. if 97 \<le> (of_char c :: nat) \<and> (of_char c :: nat) \<le> 122
               then char_of ((of_char c :: nat) - 32) else c) str"

definition demoInsertJob :: obj where
  "demoInsertJob =
     [''customerId'' \<mapsto> JNum 1, ''category'' \<mapsto> JStr ''exterior painting'',
      ''description'' \<mapsto> JStr ''Fence'', ''location'' \<mapsto> JStr ''1 Rd'', ''quotedAmount'' \<mapsto> JStr ''250'']"

definition demoToday :: clock where
  "demoToday = \<lparr>getDate = 5, getMonth = 0, getFullYear = 2026\<rparr>"

definition createdJob :: "obj" where
  "createdJob = (case createJob upperAscii demoInsertJob 1 demoToday 0 demoStore of
                   Inr (Some job, s1) \<Rightarrow> job | _ \<Rightarrow> Map.empty)"

definition createdStore :: "store" where
  "createdStore = (case createJob upperAscii demoInsertJob 1 demoToday 0 demoStore of
                     Inr (Some job, s1) \<Rightarrow> s1 | _ \<Rightarrow> demoStore)"

section \<open>Further notions for the statements\<close>

text \<open>
  \<open>matching num parents key\<close> are the positions of the rows of the parent list under
  whose id the import records a new id that a later lookup of \<open>key\<close> finds: the id is
  truthy and \<^verbatim>\<open>Number\<close> of it equals \<^verbatim>\<open>Number(key)\<close>. \<open>targetOf\<close> is the last
  of them, whose entry is the one that \<^verbatim>\<open>Map.set\<close> leaves in the map; there is
  none when the key is falsy or no row matches.
\<close>

definition matching :: "(string \<Rightarrow> jsnum) \<Rightarrow> obj list \<Rightarrow> jsval option \<Rightarrow> nat list" where
  "matching num parents key =
     filter (\<lambda>i. truthy ((parents ! i) ''id'') \<and> Number num ((parents ! i) ''id'') = Number num key)
       [0..<length parents]"

definition targetOf :: "(string \<Rightarrow> jsnum) \<Rightarrow> obj list \<Rightarrow> jsval option \<Rightarrow> nat option" where
  "targetOf num parents key =
     (if truthy key \<and> matching num parents key \<noteq> [] then Some (last (matching num parents key))
      else None)"

definition crossStoreSolo :: store where
  "crossStoreSolo = crossStore\<lparr>rows := (rows crossStore)(Jobs := [])\<rparr>"



















section \<open>Properties of the store operations and of the loops\<close>

lemma mkRow_id: "mkRow now n t vals ''id'' = Some (case vals ''id'' of Some v \<Rightarrow> v | None \<Rightarrow> JNum (int n))"
  by (cases t) (simp_all add: mkRow_def colValue_def col_def split: option.splits)

lemma mkRow_userId:
  "t \<noteq> Users \<Longrightarrow> mkRow now n t vals ''userId'' = Some (case vals ''userId'' of Some v \<Rightarrow> v | None \<Rightarrow> JNull)"
  by (cases t) (simp_all add: mkRow_def colValue_def col_def split: option.splits)

lemma insert_values_Inr:
  assumes "insert_values now t vals s = Inr (r, s')"
  shows "r = mkRow now (Suc (seq s t)) t vals"
    and "rows s' = (rows s)(t := rows s t @ [r])"
    and "seq s' = (if vals ''id'' = None then (seq s)(t := Suc (seq s t)) else seq s)"
    and "notNullOk t r" and "\<not> idTaken s t r" and "fkOk s t r"
  using assms by (auto simp: insert_values_def Let_def split: if_splits)

lemma insert_values_Inl:
  assumes "insert_values now t vals s = Inl (e, s')"
  shows "rows s' = rows s"
  using assms by (auto simp: insert_values_def Let_def split: if_splits)


lemma forEach_append:
  "forEach f (xs @ ys) b = (case forEach f xs b of Inl e \<Rightarrow> Inl e | Inr b' \<Rightarrow> forEach f ys b')"
  by (induction xs arbitrary: b) (auto split: sum.splits)

lemma forEach_invariant:
  assumes "forEach f xs b = Inr b'" and "I b"
      and "\<And>x c c'. x \<in> set xs \<Longrightarrow> I c \<Longrightarrow> f x c = Inr c' \<Longrightarrow> I c'"
  shows "I b'"
  using assms
proof (induction xs arbitrary: b)
  case Nil
  then show ?case by simp
next
  case (Cons x xs)
  from Cons.prems(1) obtain c where c: "f x b = Inr c" and rest: "forEach f xs c = Inr b'"
    by (auto split: sum.splits)
  have "I c" using Cons.prems(3)[OF _ Cons.prems(2) c] by simp
  then show ?case using Cons.IH[OF rest] Cons.prems(3) by auto
qed

lemma importCustomer_gen: "importCustomer num u now = genStep num now Customers (customerVals u)"
  by (simp add: fun_eq_iff importCustomer_def genStep_def customerVals_def Let_def)

lemma importJob_gen: "importJob num u now cm = genStep num now Jobs (jobVals num u cm)"
  by (simp add: fun_eq_iff importJob_def genStep_def jobVals_def Let_def)

lemma importWorker_gen: "importWorker num u now jm = genStep num now Workers (workerVals num u jm)"
  by (simp add: fun_eq_iff importWorker_def genStep_def workerVals_def Let_def)

lemma importExpense_gen: "importExpense num u now jm = genStepS now Expenses (expenseVals num u jm)"
  by (simp add: fun_eq_iff importExpense_def genStepS_def expenseVals_def Let_def)

lemma importInventory_gen: "importInventory num u now jm = genStepS now Inventory (inventoryVals num u jm)"
  by (simp add: fun_eq_iff importInventory_def genStepS_def inventoryVals_def Let_def)

lemma importTravel_gen: "importTravel num u now jm = genStepS now Travel (travelVals num u jm)"
  by (simp add: fun_eq_iff importTravel_def genStepS_def travelVals_def Let_def)

lemma importNote_gen: "importNote num u now cm jm wm = genStepS now Notes (noteVals num u cm jm wm)"
  by (simp add: fun_eq_iff importNote_def genStepS_def noteVals_def Let_def)

lemma importAttendance_gen:
  "importAttendance num u now jm wm = genStepS now Attendance (attendanceVals num u jm wm)"
  by (simp add: fun_eq_iff importAttendance_def genStepS_def attendanceVals_def Let_def)

lemma importJobImage_gen:
  "importJobImage num u now jm = genStepS now JobImages (imageVals num ''jobId'' u jm)"
  by (simp add: fun_eq_iff importJobImage_def genStepS_def imageVals_def Let_def)

lemma importWorkerDocument_gen:
  "importWorkerDocument num u now wm = genStepS now WorkerDocuments (imageVals num ''workerId'' u wm)"
  by (simp add: fun_eq_iff importWorkerDocument_def genStepS_def imageVals_def Let_def)

lemma importCustomerImage_gen:
  "importCustomerImage num u now cm = genStepS now CustomerImages (imageVals num ''customerId'' u cm)"
  by (simp add: fun_eq_iff importCustomerImage_def genStepS_def imageVals_def Let_def)

lemmas import_gen =
  importCustomer_gen importJob_gen importWorker_gen importExpense_gen importInventory_gen
  importTravel_gen importNote_gen importAttendance_gen importJobImage_gen
  importWorkerDocument_gen importCustomerImage_gen

lemma importF_vals:
  "importF u (customerVals u)" "importF u (jobVals num u cm)" "importF u (workerVals num u jm)"
  "importF u (expenseVals num u jm)" "importF u (inventoryVals num u jm)" "importF u (travelVals num u jm)"
  "importF u (noteVals num u cm jm wm)" "importF u (attendanceVals num u jm wm)"
  "importF u (imageVals num ''jobId'' u jm)" "importF u (imageVals num ''workerId'' u wm)"
  "importF u (imageVals num ''customerId'' u cm)"
  by (auto simp: importF_def customerVals_def jobVals_def workerVals_def expenseVals_def
      inventoryVals_def travelVals_def noteVals_def attendanceVals_def imageVals_def omit_def
      split: if_splits)

lemma genStepS_Inr:
  assumes "genStepS now t f x s = Inr s'" and "importF u f"
  shows "rows s' = (rows s)(t := rows s t @ newRows now t f [x] (seq s t))"
    and "seq s' = (seq s)(t := seq s t + length (newRows now t f [x] (seq s t)))"
proof -
  show "rows s' = (rows s)(t := rows s t @ newRows now t f [x] (seq s t))"
  proof (cases "f x")
    case None
    then show ?thesis using assms by (simp add: genStepS_def)
  next
    case (Some vals)
    then obtain r where "insert_values now t vals s = Inr (r, s')"
      using assms by (auto simp: genStepS_def insertOnly_def split: sum.splits)
    from insert_values_Inr(1,2)[OF this] Some show ?thesis by simp
  qed
  show "seq s' = (seq s)(t := seq s t + length (newRows now t f [x] (seq s t)))"
  proof (cases "f x")
    case None
    then show ?thesis using assms by (simp add: genStepS_def)
  next
    case (Some vals)
    then obtain r where "insert_values now t vals s = Inr (r, s')"
      using assms by (auto simp: genStepS_def insertOnly_def split: sum.splits)
    moreover have "vals ''id'' = None" using Some assms(2) by (simp add: importF_def)
    ultimately show ?thesis using insert_values_Inr(3) Some by simp
  qed
qed

lemma newRows_append:
  "newRows now t f (xs @ ys) n = newRows now t f xs n @ newRows now t f ys (n + length (newRows now t f xs n))"
  by (induction xs arbitrary: n) (auto split: option.splits)

lemma forEach_genStepS_Inr:
  assumes "forEach (genStepS now t f) xs s = Inr s'" and "importF u f"
  shows "rows s' = (rows s)(t := rows s t @ newRows now t f xs (seq s t)) \<and>
         seq s' = (seq s)(t := seq s t + length (newRows now t f xs (seq s t)))"
  using assms(1)
proof (induction xs arbitrary: s)
  case Nil
  then show ?case by simp
next
  case (Cons x xs)
  from Cons.prems obtain s1 where s1: "genStepS now t f x s = Inr s1"
    and rest: "forEach (genStepS now t f) xs s1 = Inr s'"
    by (auto split: sum.splits)
  note a = genStepS_Inr[OF s1 assms(2)]
  note b = Cons.IH[OF rest]
  show ?case
    using b by (cases "f x") (auto simp: a fun_eq_iff)
qed

lemma genStep_Inr:
  assumes "genStep num now t f x (m, s) = Inr (m', s')" and "importF u f"
  shows "genStepS now t f x s = Inr s'" and "m' = recordIds num f m [x] (seq s t)"
proof -
  show "genStepS now t f x s = Inr s'"
    using assms by (auto simp: genStep_def genStepS_def insertOnly_def split: option.splits sum.splits)
  show "m' = recordIds num f m [x] (seq s t)"
  proof (cases "f x")
    case None
    then show ?thesis using assms by (simp add: genStep_def)
  next
    case (Some vals)
    then obtain r where r: "insert_values now t vals s = Inr (r, s')"
      and m': "m' = (if truthy (x ''id'') then m(Number num (x ''id'') := r ''id'') else m)"
      using assms by (auto simp: genStep_def split: sum.splits)
    have "vals ''id'' = None" using Some assms(2) by (simp add: importF_def)
    then have "r ''id'' = Some (JNum (int (Suc (seq s t))))"
      using insert_values_Inr(1)[OF r] by (simp add: mkRow_id)
    then show ?thesis using m' Some by simp
  qed
qed

lemma recordIds_length:
  "recordIds num f m (x # xs) n = recordIds num f (recordIds num f m [x] n) xs (n + length (newRows now t f [x] n))"
  by (auto split: option.splits)

lemma forEach_genStep_Inr:
  assumes "forEach (genStep num now t f) xs (m, s) = Inr (m', s')" and "importF u f"
  shows "forEach (genStepS now t f) xs s = Inr s' \<and> m' = recordIds num f m xs (seq s t)"
  using assms(1)
proof (induction xs arbitrary: m s)
  case Nil
  then show ?case by simp
next
  case (Cons x xs)
  from Cons.prems obtain m1 s1 where s1: "genStep num now t f x (m, s) = Inr (m1, s1)"
    and rest: "forEach (genStep num now t f) xs (m1, s1) = Inr (m', s')"
    by (auto split: sum.splits)
  note a = genStep_Inr[OF s1 assms(2)]
  note b = Cons.IH[OF rest]
  note c = genStepS_Inr[OF a(1) assms(2)]
  have "seq s1 t = seq s t + length (newRows now t f [x] (seq s t))" by (simp add: c(2))
  then show ?case using a b
    by (cases "f x") (auto)
qed

lemma importF_tableVals: "importF u (tableVals num u cm jm wm t)"
  by (cases t) (simp_all add: importF_vals, simp add: importF_def)

lemma bindE_InrE:
  assumes "bindE m f = Inr r"
  obtains a where "m = Inr a" and "f a = Inr r"
  using assms by (cases m) (auto simp: bindE_def)

lemma importInserts_steps:
  assumes "importInserts num u now data s = Inr (cm, jm, wm, s')"
  shows "\<exists>s2 s3 s4 s5 s6 s7 s8 s9 s10 s11.
    forEach (genStep num now Customers (customerVals u)) (orEmpty (data ''customers'')) (Map.empty, s) = Inr (cm, s2) \<and>
    forEach (genStep num now Jobs (jobVals num u cm)) (orEmpty (data ''jobs'')) (Map.empty, s2) = Inr (jm, s3) \<and>
    forEach (genStep num now Workers (workerVals num u jm)) (orEmpty (data ''workers'')) (Map.empty, s3) = Inr (wm, s4) \<and>
    forEach (genStepS now Expenses (expenseVals num u jm)) (orEmpty (data ''expenses'')) s4 = Inr s5 \<and>
    forEach (genStepS now Inventory (inventoryVals num u jm)) (orEmpty (data ''inventory'')) s5 = Inr s6 \<and>
    forEach (genStepS now Travel (travelVals num u jm)) (orEmpty (data ''travel'')) s6 = Inr s7 \<and>
    forEach (genStepS now Notes (noteVals num u cm jm wm)) (orEmpty (data ''notes'')) s7 = Inr s8 \<and>
    forEach (genStepS now Attendance (attendanceVals num u jm wm)) (orEmpty (data ''attendance'')) s8 = Inr s9 \<and>
    forEach (genStepS now JobImages (imageVals num ''jobId'' u jm)) (orEmpty (data ''jobImages'')) s9 = Inr s10 \<and>
    forEach (genStepS now WorkerDocuments (imageVals num ''workerId'' u wm)) (orEmpty (data ''workerDocuments'')) s10 = Inr s11 \<and>
    forEach (genStepS now CustomerImages (imageVals num ''customerId'' u cm)) (orEmpty (data ''customerImages'')) s11 = Inr s'"
  using assms unfolding importInserts_def import_gen
  apply (erule_tac bindE_InrE, clarsimp)+
  done

lemma forEach_genStepS_at:
  assumes "forEach (genStepS now t f) xs s = Inr s'" and "importF u f"
  shows "rows s' t' = (if t' = t then rows s t @ newRows now t f xs (seq s t) else rows s t')"
    and "seq s' t' = (if t' = t then seq s t + length (newRows now t f xs (seq s t)) else seq s t')"
  using forEach_genStepS_Inr[OF assms] by simp_all

lemma importInserts_Inr:
  assumes "importInserts num u now data s = Inr (cm, jm, wm, s')"
  shows "cm = customerIds num u data s" and "jm = jobIds num u data s" and "wm = workerIds num u data s"
    and "rows s' t = rows s t @ insertedRows num u now data s t"
    and "seq s' t = seq s t + length (insertedRows num u now data s t)"
proof -
  from importInserts_steps[OF assms] obtain s2 s3 s4 s5 s6 s7 s8 s9 s10 s11 where
    l2: "forEach (genStep num now Customers (customerVals u)) (orEmpty (data ''customers'')) (Map.empty, s) = Inr (cm, s2)" and
    l3: "forEach (genStep num now Jobs (jobVals num u cm)) (orEmpty (data ''jobs'')) (Map.empty, s2) = Inr (jm, s3)" and
    l4: "forEach (genStep num now Workers (workerVals num u jm)) (orEmpty (data ''workers'')) (Map.empty, s3) = Inr (wm, s4)" and
    l5: "forEach (genStepS now Expenses (expenseVals num u jm)) (orEmpty (data ''expenses'')) s4 = Inr s5" and
    l6: "forEach (genStepS now Inventory (inventoryVals num u jm)) (orEmpty (data ''inventory'')) s5 = Inr s6" and
    l7: "forEach (genStepS now Travel (travelVals num u jm)) (orEmpty (data ''travel'')) s6 = Inr s7" and
    l8: "forEach (genStepS now Notes (noteVals num u cm jm wm)) (orEmpty (data ''notes'')) s7 = Inr s8" and
    l9: "forEach (genStepS now Attendance (attendanceVals num u jm wm)) (orEmpty (data ''attendance'')) s8 = Inr s9" and
    l10: "forEach (genStepS now JobImages (imageVals num ''jobId'' u jm)) (orEmpty (data ''jobImages'')) s9 = Inr s10" and
    l11: "forEach (genStepS now WorkerDocuments (imageVals num ''workerId'' u wm)) (orEmpty (data ''workerDocuments'')) s10 = Inr s11" and
    l12: "forEach (genStepS now CustomerImages (imageVals num ''customerId'' u cm)) (orEmpty (data ''customerImages'')) s11 = Inr s'"
    by blast
  note g2 = forEach_genStep_Inr[OF l2 importF_vals(1)]
  note g3 = forEach_genStep_Inr[OF l3 importF_vals(2)]
  note g4 = forEach_genStep_Inr[OF l4 importF_vals(3)]
  note r2 = forEach_genStepS_at[OF g2[THEN conjunct1] importF_vals(1)]
  note r3 = forEach_genStepS_at[OF g3[THEN conjunct1] importF_vals(2)]
  note r4 = forEach_genStepS_at[OF g4[THEN conjunct1] importF_vals(3)]
  note r5 = forEach_genStepS_at[OF l5 importF_vals(4)]
  note r6 = forEach_genStepS_at[OF l6 importF_vals(5)]
  note r7 = forEach_genStepS_at[OF l7 importF_vals(6)]
  note r8 = forEach_genStepS_at[OF l8 importF_vals(7)]
  note r9 = forEach_genStepS_at[OF l9 importF_vals(8)]
  note r10 = forEach_genStepS_at[OF l10 importF_vals(9)]
  note r11 = forEach_genStepS_at[OF l11 importF_vals(10)]
  note r12 = forEach_genStepS_at[OF l12 importF_vals(11)]
  show cm: "cm = customerIds num u data s"
    using g2 by (simp add: customerIds_def docRows_def)
  have q3: "seq s2 Jobs = seq s Jobs" by (simp add: r2)
  show jm: "jm = jobIds num u data s"
    using g3 by (simp add: jobIds_def docRows_def cm q3)
  have q4: "seq s3 Workers = seq s Workers" by (simp add: r2 r3)
  show wm: "wm = workerIds num u data s"
    using g4 by (simp add: workerIds_def docRows_def jm q4)
  have "rows s' t = rows s t @ insertedRows num u now data s t \<and>
        seq s' t = seq s t + length (insertedRows num u now data s t)"
    by (cases t)
       (simp_all add: r2 r3 r4 r5 r6 r7 r8 r9 r10 r11 r12 insertedRows_def docRows_def
          cm[symmetric] jm[symmetric] wm[symmetric])
  then show "rows s' t = rows s t @ insertedRows num u now data s t"
    and "seq s' t = seq s t + length (insertedRows num u now data s t)" by simp_all
qed

lemma deletes_rows:
  "forEach (\<lambda>t. delete_where t P) ts s = Inr s' \<Longrightarrow>
   rows s' = (\<lambda>t. if t \<in> set ts then filter (\<lambda>r. \<not> P r) (rows s t) else rows s t) \<and> seq s' = seq s"
proof (induction ts arbitrary: s)
  case Nil
  then show ?case by simp
next
  case (Cons t ts)
  from Cons.prems obtain s1 where s1: "delete_where t P s = Inr s1"
    and rest: "forEach (\<lambda>t. delete_where t P) ts s1 = Inr s'"
    by (auto split: sum.splits)
  from s1 have r1: "rows s1 = (rows s)(t := filter (\<lambda>r. \<not> P r) (rows s t))" and q1: "seq s1 = seq s"
    by (auto simp: delete_where_def Let_def split: if_splits)
  from Cons.IH[OF rest] show ?case
    by (auto simp: r1 q1 fun_eq_iff)
qed

lemma set_deleteOrder: "t \<in> set deleteOrder \<longleftrightarrow> t \<noteq> Users"
  by (cases t) (simp_all add: deleteOrder_def)

lemma deleteAll_Inr:
  assumes "deleteAll u s = Inr s1"
  shows "rows s1 t = (if t = Users then rows s t else others u s t)" and "seq s1 = seq s"
  using deletes_rows[OF assms[unfolded deleteAll_def]]
  by (simp_all add: set_deleteOrder others_def)

lemma newRows_owned:
  assumes "importF u f" and "t \<noteq> Users" and "r \<in> set (newRows now t f xs n)"
  shows "owned u r"
  using assms(3)
proof (induction xs arbitrary: n)
  case Nil
  then show ?case by simp
next
  case (Cons x xs)
  show ?case
  proof (cases "f x")
    case None
    then show ?thesis using Cons by simp
  next
    case (Some vals)
    then have "vals ''userId'' = Some (JNum u)" using assms(1) by (simp add: importF_def)
    then have "owned u (mkRow now (Suc n) t vals)"
      by (simp add: owned_def mkRow_userId[OF assms(2)])
    then show ?thesis using Cons Some by auto
  qed
qed

lemma insertedRows_Users: "insertedRows num u now data s Users = []"
  by (simp add: insertedRows_def docRows_def)

lemma insertedRows_owned:
  assumes "r \<in> set (insertedRows num u now data s t)"
  shows "owned u r"
proof (cases "t = Users")
  case True
  then show ?thesis using assms insertedRows_Users by simp
next
  case False
  from assms show ?thesis
    unfolding insertedRows_def by (rule newRows_owned[OF importF_tableVals False])
qed

lemma insertedRows_seq:
  "seq s1 = seq s \<Longrightarrow> insertedRows num u now data s1 = insertedRows num u now data s"
  by (simp add: fun_eq_iff insertedRows_def customerIds_def jobIds_def workerIds_def)

lemma importBody_Inr:
  assumes "importBody num u now data s = Inr s'"
  shows "rows s' t = (if t = Users then rows s t else others u s t) @ insertedRows num u now data s t"
    and "seq s' t = seq s t + length (insertedRows num u now data s t)"
proof -
  from assms obtain s1 cm jm wm where d: "deleteAll u s = Inr s1"
    and i: "importInserts num u now data s1 = Inr (cm, jm, wm, s')"
    unfolding importBody_def by (auto elim!: bindE_InrE)
  note dd = deleteAll_Inr[OF d]
  note ii = importInserts_Inr(4,5)[OF i]
  show "rows s' t = (if t = Users then rows s t else others u s t) @ insertedRows num u now data s t"
    using ii(1)[of t] dd(1)[of t] insertedRows_seq[OF dd(2)] by simp
  show "seq s' t = seq s t + length (insertedRows num u now data s t)"
    using ii(2)[of t] dd(2) insertedRows_seq[OF dd(2)] by simp
qed

lemma importData_Inr:
  assumes "importData num u now data s = (Inr x, s')"
  shows "rows s' t = (if t = Users then rows s t else others u s t) @ insertedRows num u now data s t"
    and "seq s' t = seq s t + length (insertedRows num u now data s t)"
proof -
  from assms have "importBody num u now data s = Inr s'"
    by (auto simp: importData_def transaction_def split: sum.splits)
  from importBody_Inr[OF this] show
    "rows s' t = (if t = Users then rows s t else others u s t) @ insertedRows num u now data s t"
    "seq s' t = seq s t + length (insertedRows num u now data s t)" by simp_all
qed

lemma importData_Inl:
  assumes "importData num u now data s = (Inl e, s')"
  shows "rows s' = rows s"
  using assms by (auto simp: importData_def transaction_def split: sum.splits)

lemma importData_others:
  "others u (snd (importData num u now data s)) t = others u s t"
proof (cases "importData num u now data s")
  case (Pair res s')
  show ?thesis
  proof (cases res)
    case (Inl e)
    then show ?thesis using importData_Inl Pair by (simp add: others_def)
  next
    case (Inr x)
    have "\<forall>r\<in>set (insertedRows num u now data s t). owned u r"
      using insertedRows_owned by blast
    then have "filter (\<lambda>r. \<not> owned u r) (insertedRows num u now data s t) = []"
      by (simp add: filter_empty_conv)
    then show ?thesis using importData_Inr(1)[OF Pair[unfolded Inr], of t] Pair
      by (simp add: others_def insertedRows_Users)
  qed
qed

lemma importData_mine:
  assumes "importData num u now data s = (Inr x, s')" and "t \<noteq> Users"
  shows "mine u s' t = insertedRows num u now data s t"
proof -
  have "\<forall>r\<in>set (insertedRows num u now data s t). owned u r"
    using insertedRows_owned by blast
  then have "filter (owned u) (insertedRows num u now data s t) = insertedRows num u now data s t"
    by (simp add: filter_id_conv)
  then show ?thesis using importData_Inr(1)[OF assms(1), of t] assms(2)
    by (simp add: mine_def others_def)
qed

lemma brokenDoc_fails: "fst (importData exampleReader 1 0 brokenDoc demoStore) = Inl NotNullViolation"
  by code_simp

lemma brokenDoc_partial:
  "(case importBody exampleReader 1 0 brokenDoc demoStore of
      Inl (e, s1) \<Rightarrow> (e, length (rows s1 Jobs), map (\<lambda>r. r ''name'') (rows s1 Customers))
    | Inr s1 \<Rightarrow> (Error [], 0, [])) =
   (NotNullViolation, 0, [Some (JStr ''Bob''), Some (JStr ''Carol'')])"
  by code_simp

lemma smallDoc_ok: "fst (importData exampleReader 1 0 smallDoc demoStore) = Inr ()"
  by code_simp

lemma newRows_mem:
  assumes "r \<in> set (newRows now t f xs n)"
  shows "\<exists>x vals k. x \<in> set xs \<and> f x = Some vals \<and> r = mkRow now k t vals"
  using assms
proof (induction xs arbitrary: n)
  case Nil
  then show ?case by simp
next
  case (Cons x xs)
  show ?case
  proof (cases "f x")
    case None
    with Cons.prems have "r \<in> set (newRows now t f xs n)" by simp
    from Cons.IH[OF this] show ?thesis by auto
  next
    case (Some vals)
    show ?thesis
    proof (cases "r = mkRow now (Suc n) t vals")
      case True
      then show ?thesis using Some by auto
    next
      case False
      with Cons.prems Some have "r \<in> set (newRows now t f xs (Suc n))" by simp
      from Cons.IH[OF this] show ?thesis by auto
    qed
  qed
qed

lemma newRows_total:
  assumes "\<forall>x\<in>set xs. f x \<noteq> None"
  shows "length (newRows now t f xs n) = length xs"
    and "k < length xs \<Longrightarrow> newRows now t f xs n ! k = mkRow now (Suc (n + k)) t (the (f (xs ! k)))"
proof -
  show "length (newRows now t f xs n) = length xs"
    using assms by (induction xs arbitrary: n) (auto split: option.splits)
  show "k < length xs \<Longrightarrow> newRows now t f xs n ! k = mkRow now (Suc (n + k)) t (the (f (xs ! k)))"
    using assms
  proof (induction xs arbitrary: n k)
    case Nil
    then show ?case by simp
  next
    case (Cons x xs)
    then obtain vals where v: "f x = Some vals" by auto
    show ?case
    proof (cases k)
      case 0
      then show ?thesis using v by simp
    next
      case (Suc k')
      then show ?thesis using v Cons by simp
    qed
  qed
qed

lemma recordIds_none:
  assumes "\<forall>x\<in>set xs. truthy (x ''id'') \<longrightarrow> Number num (x ''id'') \<noteq> key"
  shows "recordIds num f m xs n key = m key"
  using assms by (induction xs arbitrary: m n) (auto split: option.splits)

lemma recordIds_last:
  assumes "\<forall>x\<in>set xs. f x \<noteq> None"
      and "i < length xs" and "truthy ((xs ! i) ''id'')"
      and "\<forall>j. i < j \<and> j < length xs \<longrightarrow>
               \<not> (truthy ((xs ! j) ''id'') \<and> Number num ((xs ! j) ''id'') = Number num ((xs ! i) ''id''))"
  shows "recordIds num f m xs n (Number num ((xs ! i) ''id'')) = Some (JNum (int (Suc (n + i))))"
  using assms
proof (induction xs arbitrary: m n i)
  case Nil
  then show ?case by simp
next
  case (Cons x xs)
  then obtain vals where v: "f x = Some vals" by auto
  show ?case
  proof (cases i)
    case 0
    have "\<forall>y\<in>set xs. truthy (y ''id'') \<longrightarrow> Number num (y ''id'') \<noteq> Number num (x ''id'')"
    proof (intro ballI impI)
      fix y assume y: "y \<in> set xs" and ty: "truthy (y ''id'')"
      then obtain j where j: "j < length xs" "xs ! j = y" by (auto simp: in_set_conv_nth)
      with Cons.prems(4)[rule_format, of "Suc j"] 0 ty show "Number num (y ''id'') \<noteq> Number num (x ''id'')"
        by auto
    qed
    from recordIds_none[OF this] show ?thesis using 0 v Cons.prems(3) by simp
  next
    case (Suc i')
    have a: "\<forall>x\<in>set xs. f x \<noteq> None" using Cons.prems(1) by simp
    have b: "i' < length xs" using Cons.prems(2) Suc by simp
    have c: "truthy ((xs ! i') ''id'')" using Cons.prems(3) Suc by simp
    have d: "\<forall>j. i' < j \<and> j < length xs \<longrightarrow>
               \<not> (truthy ((xs ! j) ''id'') \<and> Number num ((xs ! j) ''id'') = Number num ((xs ! i') ''id''))"
    proof (intro allI impI)
      fix j assume "i' < j \<and> j < length xs"
      with Cons.prems(4)[rule_format, of "Suc j"] Suc
      show "\<not> (truthy ((xs ! j) ''id'') \<and> Number num ((xs ! j) ''id'') = Number num ((xs ! i') ''id''))"
        by simp
    qed
    from Cons.IH[OF a b c d] show ?thesis using Suc v by simp
  qed
qed

lemma mkRow_Jobs_jobId:
  "mkRow now k Jobs vals ''jobId'' = Some (case vals ''jobId'' of None \<Rightarrow> JNull | Some v \<Rightarrow> v)"
  by (simp add: mkRow_def colValue_def col_def split: option.splits)

lemma tableVals_plain:
  "t \<in> set plainTables \<Longrightarrow> tableVals num u cm jm wm t x \<noteq> None"
  by (auto simp: plainTables_def customerVals_def jobVals_def workerVals_def expenseVals_def
      inventoryVals_def travelVals_def noteVals_def attendanceVals_def)

lemma plain_not_Users: "t \<in> set plainTables \<Longrightarrow> t \<noteq> Users"
  by (auto simp: plainTables_def)

lemma importData_plain:
  assumes "importData num u now data s = (Inr x, s')" and "t \<in> set plainTables"
  shows "length (mine u s' t) = length (docRows data t)"
    and "k < length (docRows data t) \<Longrightarrow>
         mine u s' t ! k =
         mkRow now (Suc (seq s t + k)) t
           (the (tableVals num u (customerIds num u data s) (jobIds num u data s) (workerIds num u data s) t
                   (docRows data t ! k)))"
proof -
  have m: "mine u s' t = insertedRows num u now data s t"
    using importData_mine[OF assms(1) plain_not_Users[OF assms(2)]] .
  have tot: "\<forall>x\<in>set (docRows data t).
          tableVals num u (customerIds num u data s) (jobIds num u data s) (workerIds num u data s) t x \<noteq> None"
    using tableVals_plain[OF assms(2)] by blast
  show "length (mine u s' t) = length (docRows data t)"
    unfolding m insertedRows_def by (rule newRows_total(1)[OF tot])
  show "k < length (docRows data t) \<Longrightarrow>
         mine u s' t ! k =
         mkRow now (Suc (seq s t + k)) t
           (the (tableVals num u (customerIds num u data s) (jobIds num u data s) (workerIds num u data s) t
                   (docRows data t ! k)))"
    unfolding m insertedRows_def by (rule newRows_total(2)[OF tot])
qed

lemma stored_id:
  assumes "importData num u now data s = (Inr x, s')" and "t \<in> set plainTables"
      and "k < length (docRows data t)"
  shows "(mine u s' t ! k) ''id'' = Some (JNum (int (Suc (seq s t + k))))"
proof -
  obtain vals where v: "tableVals num u (customerIds num u data s) (jobIds num u data s) (workerIds num u data s) t
                   (docRows data t ! k) = Some vals"
    using tableVals_plain[OF assms(2)] by fastforce
  then have "vals ''id'' = None" using importF_tableVals by (auto simp: importF_def)
  then show ?thesis using importData_plain(2)[OF assms] v by (simp add: mkRow_id)
qed

lemma idsOf_last:
  assumes "t = Customers \<or> t = Jobs \<or> t = Workers"
      and "i < length (docRows data t)" and "truthy ((docRows data t ! i) ''id'')"
      and "\<forall>j. i < j \<and> j < length (docRows data t) \<longrightarrow>
               \<not> (truthy ((docRows data t ! j) ''id'') \<and>
                  Number num ((docRows data t ! j) ''id'') = Number num ((docRows data t ! i) ''id''))"
  shows "idsOf num u data s t (Number num ((docRows data t ! i) ''id'')) = Some (JNum (int (Suc (seq s t + i))))"
proof -
  have c: "\<forall>x\<in>set xs. customerVals u x \<noteq> None" for xs by (simp add: customerVals_def)
  have j: "\<forall>x\<in>set xs. jobVals num u cm x \<noteq> None" for xs cm by (simp add: jobVals_def)
  have w: "\<forall>x\<in>set xs. workerVals num u jm x \<noteq> None" for xs jm by (simp add: workerVals_def)
  from assms(1) show ?thesis
  proof (elim disjE)
    assume t: "t = Customers"
    show ?thesis using recordIds_last[OF c assms(2,3,4)] by (simp add: t idsOf_def customerIds_def)
  next
    assume t: "t = Jobs"
    show ?thesis using recordIds_last[OF j assms(2,3,4)] by (simp add: t idsOf_def jobIds_def)
  next
    assume t: "t = Workers"
    show ?thesis using recordIds_last[OF w assms(2,3,4)] by (simp add: t idsOf_def workerIds_def)
  qed
qed

lemma mkRow_fk:
  "mkRow now n Jobs vals ''customerId'' = Some (case vals ''customerId'' of None \<Rightarrow> JNull | Some v \<Rightarrow> v)"
  "mkRow now n Workers vals ''jobId'' = Some (case vals ''jobId'' of None \<Rightarrow> JNull | Some v \<Rightarrow> v)"
  "mkRow now n Expenses vals ''jobId'' = Some (case vals ''jobId'' of None \<Rightarrow> JNull | Some v \<Rightarrow> v)"
  "mkRow now n Inventory vals ''jobId'' = Some (case vals ''jobId'' of None \<Rightarrow> JNull | Some v \<Rightarrow> v)"
  "mkRow now n Inventory vals ''assignedToJobId'' = Some (case vals ''assignedToJobId'' of None \<Rightarrow> JNull | Some v \<Rightarrow> v)"
  "mkRow now n Travel vals ''jobId'' = Some (case vals ''jobId'' of None \<Rightarrow> JNull | Some v \<Rightarrow> v)"
  "mkRow now n Attendance vals ''workerId'' = Some (case vals ''workerId'' of None \<Rightarrow> JNull | Some v \<Rightarrow> v)"
  "mkRow now n Attendance vals ''jobId'' = Some (case vals ''jobId'' of None \<Rightarrow> JNull | Some v \<Rightarrow> v)"
  "mkRow now n Notes vals ''referenceId'' = Some (case vals ''referenceId'' of None \<Rightarrow> JNull | Some v \<Rightarrow> v)"
  by (simp_all add: mkRow_def colValue_def col_def split: option.splits)

lemma edge_plain:
  "(child, fk, parent) \<in> set fkEdges \<Longrightarrow> child \<in> set plainTables \<and> parent \<in> set plainTables \<and>
     (parent = Customers \<or> parent = Jobs \<or> parent = Workers)"
  by (auto simp: fkEdges_def plainTables_def)

lemma stored_fk:
  assumes "importData num u now data s = (Inr x, s')" and "(child, fk, parent) \<in> set fkEdges"
      and "k < length (docRows data child)"
  shows "(mine u s' child ! k) fk = Some (remap num (idsOf num u data s parent) ((docRows data child ! k) fk))"
proof -
  note p = importData_plain(2)[OF assms(1) edge_plain[OF assms(2), THEN conjunct1] assms(3)]
  from assms(2) show ?thesis
    unfolding fkEdges_def
    by (auto simp: p mkRow_fk idsOf_def jobVals_def workerVals_def expenseVals_def inventoryVals_def
        travelVals_def attendanceVals_def)
qed

lemma pairDoc_ok: "importData exampleReader 1 0 pairDoc demoStore = (Inr (), snd (importData exampleReader 1 0 pairDoc demoStore))"
proof -
  have "fst (importData exampleReader 1 0 pairDoc demoStore) = Inr ()" by code_simp
  then show ?thesis by (simp add: prod_eq_iff)
qed

lemma newReferenceId_by_section:
  "newReferenceId num cm jm wm sec ref = translateBySection num cm jm wm sec ref"
  by (simp add: newReferenceId_def translateBySection_def sectionMap_def remap_def)

lemma noteDoc_ok: "importData exampleReader 1 0 noteDoc demoStore = (Inr (), snd (importData exampleReader 1 0 noteDoc demoStore))"
proof -
  have "fst (importData exampleReader 1 0 noteDoc demoStore) = Inr ()" by code_simp
  then show ?thesis by (simp add: prod_eq_iff)
qed

lemma remap_unmapped: "m (Number num v) = None \<Longrightarrow> remap num m v = JNull"
  by (simp add: remap_def getOrNull_def)

lemma remap_absent: "remap num m None = JNull"
  by (simp add: remap_def)

lemma omit_upd_same: "k \<in> set ks \<Longrightarrow> omit ks (ob(k := v)) = omit ks ob"
  by (auto simp: omit_def fun_eq_iff)

lemma danglingDoc_ok:
  "importData exampleReader 1 0 danglingDoc demoStore = (Inr (), snd (importData exampleReader 1 0 danglingDoc demoStore))"
proof -
  have "fst (importData exampleReader 1 0 danglingDoc demoStore) = Inr ()" by code_simp
  then show ?thesis by (simp add: prod_eq_iff)
qed

lemma allTables_all: "t \<in> set allTables"
  by (cases t) (simp_all add: allTables_def)

lemma noForeignRefsD:
  assumes "noForeignRefs u s" and "c \<in> set (columns t')" and "refs c = Some t"
      and "r' \<in> set (rows s t')" and "\<not> owned u r'" and "r \<in> set (rows s t)" and "owned u r"
  shows "r' (cname c) \<noteq> r ''id''"
proof -
  from assms(1) allTables_all[of t'] assms(2)
  have "case refs c of None \<Rightarrow> True
        | Some t \<Rightarrow> list_all (\<lambda>r'. owned u r' \<or>
                          list_all (\<lambda>r. \<not> (owned u r \<and> r' (cname c) = r ''id'')) (rows s t))
              (rows s t')"
    unfolding noForeignRefs_def list_all_iff by blast
  with assms(3,4,5,6,7) show ?thesis
    by (auto simp: list_all_iff)
qed

lemma sources_iff: "t' \<in> set (sources t) \<longleftrightarrow> (\<exists>c\<in>set (columns t'). refs c = Some t)"
  by (auto simp: sources_def allTables_all list_ex_iff)

lemma delete_where_ok:
  assumes "\<forall>t'\<in>set (sources t). \<forall>r'\<in>set (rows s t'). \<not> P r' \<or> t' = t"
      and "\<And>c t' r' r. c \<in> set (columns t') \<Longrightarrow> refs c = Some t \<Longrightarrow> r' \<in> set (rows s t') \<Longrightarrow>
             \<not> P r' \<Longrightarrow> r \<in> set (rows s t) \<Longrightarrow> P r \<Longrightarrow> r' (cname c) \<noteq> r ''id''"
  shows "delete_where t P s = Inr (s\<lparr>rows := (rows s)(t := filter (\<lambda>r. \<not> P r) (rows s t))\<rparr>)"
proof -
  let ?s' = "s\<lparr>rows := (rows s)(t := filter (\<lambda>r. \<not> P r) (rows s t))\<rparr>"
  have "\<not> referenced ?s' t r" if r: "r \<in> set (rows s t)" "P r" for r
  proof
    assume "referenced ?s' t r"
    then obtain t' c r' where c: "c \<in> set (columns t')" "refs c = Some t"
      and r': "r' \<in> set (rows ?s' t')" "r' (cname c) = r ''id''"
      unfolding referenced_def list_ex_iff by blast
    have src: "t' \<in> set (sources t)" using c sources_iff by blast
    have np: "\<not> P r'" and mem: "r' \<in> set (rows s t')"
      using r'(1) assms(1) src by (auto split: if_splits)
    from assms(2)[OF c mem np r] r'(2) show False by simp
  qed
  then show ?thesis by (auto simp: delete_where_def Let_def list_ex_iff)
qed

lemma deletes_ok:
  assumes "orderOk finished ts"
      and "\<forall>t'\<in>set finished. \<forall>r'\<in>set (rows s t'). \<not> P r'"
      and "\<And>c t' t r' r. c \<in> set (columns t') \<Longrightarrow> refs c = Some t \<Longrightarrow> r' \<in> set (rows s t') \<Longrightarrow>
             \<not> P r' \<Longrightarrow> r \<in> set (rows s t) \<Longrightarrow> P r \<Longrightarrow> r' (cname c) \<noteq> r ''id''"
  shows "\<exists>s'. forEach (\<lambda>t. delete_where t P) ts s = Inr s'"
  using assms
proof (induction ts arbitrary: finished s)
  case Nil
  then show ?case by simp
next
  case (Cons t ts)
  let ?s1 = "s\<lparr>rows := (rows s)(t := filter (\<lambda>r. \<not> P r) (rows s t))\<rparr>"
  have src: "\<forall>t'\<in>set (sources t). t' \<in> set finished"
    using Cons.prems(1) by (simp add: list_all_iff)
  have d: "delete_where t P s = Inr ?s1"
  proof (rule delete_where_ok)
    show "\<forall>t'\<in>set (sources t). \<forall>r'\<in>set (rows s t'). \<not> P r' \<or> t' = t"
      using src Cons.prems(2) by blast
  next
    fix c t' r' r
    assume "c \<in> set (columns t')" "refs c = Some t" "r' \<in> set (rows s t')" "\<not> P r'"
      "r \<in> set (rows s t)" "P r"
    then show "r' (cname c) \<noteq> r ''id''" by (rule Cons.prems(3))
  qed
  have o: "orderOk (t # finished) ts" using Cons.prems(1) by simp
  have e: "\<forall>t'\<in>set (t # finished). \<forall>r'\<in>set (rows ?s1 t'). \<not> P r'"
    using Cons.prems(2) by auto
  have n: "r' (cname c) \<noteq> r ''id''"
    if "c \<in> set (columns t')" "refs c = Some ta" "r' \<in> set (rows ?s1 t')" "\<not> P r'"
       "r \<in> set (rows ?s1 ta)" "P r" for c t' ta r' r
  proof -
    have "r' \<in> set (rows s t')" "r \<in> set (rows s ta)" using that(3,5) by (auto split: if_splits)
    with that Cons.prems(3) show ?thesis by blast
  qed
  have "\<exists>s'. forEach (\<lambda>t. delete_where t P) ts ?s1 = Inr s'"
  proof (rule Cons.IH[of "t # finished" ?s1, OF o e])
    fix c t' ta r' r
    assume "c \<in> set (columns t')" "refs c = Some ta" "r' \<in> set (rows ?s1 t')" "\<not> P r'"
       "r \<in> set (rows ?s1 ta)" "P r"
    then show "r' (cname c) \<noteq> r ''id''" by (rule n)
  qed
  with d show ?case by simp
qed

lemma orderOk_deleteOrder: "orderOk [] deleteOrder"
  by code_simp

lemma deleteAll_ok:
  assumes "noForeignRefs u s"
  shows "\<exists>s1. deleteAll u s = Inr s1"
  unfolding deleteAll_def
proof (rule deletes_ok[OF orderOk_deleteOrder])
  show "\<forall>t'\<in>set []. \<forall>r'\<in>set (rows s t'). \<not> owned u r'" by simp
next
  fix c t' t r' r
  assume "c \<in> set (columns t')" "refs c = Some t" "r' \<in> set (rows s t')" "\<not> owned u r'"
    "r \<in> set (rows s t)" "owned u r"
  then show "r' (cname c) \<noteq> r ''id''" by (rule noForeignRefsD[OF assms])
qed

lemma importInserts_empty:
  assumes "\<forall>t. docRows data t = []"
  shows "importInserts num u now data s = Inr (Map.empty, Map.empty, Map.empty, s)"
proof -
  have "orEmpty (data (docKey t)) = []" if "t \<noteq> Users" for t
    using assms[rule_format, of t] that by (simp add: docRows_def)
  from this[of Customers] this[of Jobs] this[of Workers] this[of Expenses] this[of Inventory]
    this[of Travel] this[of Notes] this[of Attendance] this[of JobImages]
    this[of WorkerDocuments] this[of CustomerImages]
  show ?thesis by (simp add: importInserts_def bindE_def)
qed

lemma insertedRows_empty:
  assumes "\<forall>t. docRows data t = []"
  shows "insertedRows num u now data s t = []"
  using assms by (simp add: insertedRows_def)







lemma update_where_Inr:
  assumes "update_where t updates P s = Inr (returned, s')"
  shows "returned = map (applySet t updates) (filter P (rows s t))"
    and "rows s' = (rows s)(t := map (\<lambda>r. if P r then applySet t updates r else r) (rows s t))"
    and "seq s' = seq s"
  using assms by (auto simp: update_where_def Let_def split: if_splits)

lemma applySet_Jobs_jobId:
  "applySet Jobs updates r ''jobId'' = (case updates ''jobId'' of Some v \<Rightarrow> Some v | None \<Rightarrow> r ''jobId'')"
  by (simp add: applySet_def col_def)

lemma applySet_id: "applySet t updates r ''id'' = r ''id''"
  by (simp add: applySet_def)

lemma select_owned_mine: "select_where t (owned u) s = mine u s t"
  by (simp add: select_where_def mine_def)

lemma sum_case_InrE:
  assumes "(case m of Inl e \<Rightarrow> Inl e | Inr a \<Rightarrow> f a) = Inr r"
  obtains a where "m = Inr a" and "f a = Inr r"
  using assms by (cases m) auto

lemma returned_head:
  assumes "update_where Jobs [''jobId'' \<mapsto> JStr code] (\<lambda>r. r ''id'' = ident) s1 = Inr (returned, s')"
      and "(case returned of [] \<Rightarrow> None | updatedJob # _ \<Rightarrow> Some updatedJob) = Some job"
  shows "job ''jobId'' = Some (JStr code)" and "job ''id'' = ident"
proof -
  from assms(2) obtain rest where "returned = job # rest" by (auto split: list.splits)
  with update_where_Inr(1)[OF assms(1)] obtain r0 where
    j: "job = applySet Jobs [''jobId'' \<mapsto> JStr code] r0" and p: "r0 ''id'' = ident"
    by (auto simp: map_eq_Cons_conv filter_eq_Cons_iff)
  show "job ''jobId'' = Some (JStr code)" by (simp add: j applySet_Jobs_jobId)
  show "job ''id'' = ident" by (simp add: j p applySet_id)
qed

lemma createJob_code:
  assumes "createJob upper insertJob userId today now s = Inr (Some job, s')"
  shows "job ''jobId'' =
         Some (JStr (showNat (length (mine userId s Jobs) + 1) @ categoryInitial upper insertJob @ dateStr today))"
proof -
  note a = assms[unfolded createJob_def Let_def select_owned_mine]
  from a obtain p where "(case p of (job0, s1) \<Rightarrow>
      case update_where Jobs
             [''jobId'' \<mapsto> JStr (showNat (length (mine userId s Jobs) + 1) @ categoryInitial upper insertJob @
                                   dateStr today)]
             (\<lambda>r. r ''id'' = job0 ''id'') s1 of
        Inl e \<Rightarrow> Inl e
      | Inr (returned, s2) \<Rightarrow>
          Inr (case returned of [] \<Rightarrow> None | updatedJob # _ \<Rightarrow> Some updatedJob, s2)) = Inr (Some job, s')"
    by (rule sum_case_InrE)
  then obtain job0 s1 where b: "(case update_where Jobs
             [''jobId'' \<mapsto> JStr (showNat (length (mine userId s Jobs) + 1) @ categoryInitial upper insertJob @
                                   dateStr today)]
             (\<lambda>r. r ''id'' = job0 ''id'') s1 of
        Inl e \<Rightarrow> Inl e
      | Inr (returned, s2) \<Rightarrow>
          Inr (case returned of [] \<Rightarrow> None | updatedJob # _ \<Rightarrow> Some updatedJob, s2)) = Inr (Some job, s')"
    by (cases p) simp
  from b obtain q where u: "update_where Jobs
             [''jobId'' \<mapsto> JStr (showNat (length (mine userId s Jobs) + 1) @ categoryInitial upper insertJob @
                                   dateStr today)]
             (\<lambda>r. r ''id'' = job0 ''id'') s1 = Inr q"
    and c: "(case q of (returned, s2) \<Rightarrow>
          Inr (case returned of [] \<Rightarrow> None | updatedJob # _ \<Rightarrow> Some updatedJob, s2)) = (Inr (Some job, s') :: (error \<times> store) + (obj option \<times> store))"
    by (rule sum_case_InrE)
  obtain returned s2 where q: "q = (returned, s2)" by (cases q)
  from c q have r: "(case returned of [] \<Rightarrow> None | updatedJob # _ \<Rightarrow> Some updatedJob) = Some job"
    and s2: "s2 = s'" by simp_all
  from returned_head(1)[OF u[unfolded q s2] r] show ?thesis .
qed

lemma createJobById_code:
  assumes "createJobById upper insertJob userId today now s = Inr (Some job, s')"
  shows "job ''jobId'' =
         Some (JStr (''#'' @ showId (job ''id'') @ categoryInitial upper insertJob @ dateStr today))"
proof -
  note a = assms[unfolded createJobById_def Let_def]
  from a obtain p where "(case p of (job0, s1) \<Rightarrow>
      case update_where Jobs
             [''jobId'' \<mapsto> JStr (''#'' @ showId (job0 ''id'') @ categoryInitial upper insertJob @ dateStr today)]
             (\<lambda>r. r ''id'' = job0 ''id'') s1 of
        Inl e \<Rightarrow> Inl e
      | Inr (returned, s2) \<Rightarrow>
          Inr (case returned of [] \<Rightarrow> None | updatedJob # _ \<Rightarrow> Some updatedJob, s2)) = Inr (Some job, s')"
    by (rule sum_case_InrE)
  then obtain job0 s1 where b: "(case update_where Jobs
             [''jobId'' \<mapsto> JStr (''#'' @ showId (job0 ''id'') @ categoryInitial upper insertJob @ dateStr today)]
             (\<lambda>r. r ''id'' = job0 ''id'') s1 of
        Inl e \<Rightarrow> Inl e
      | Inr (returned, s2) \<Rightarrow>
          Inr (case returned of [] \<Rightarrow> None | updatedJob # _ \<Rightarrow> Some updatedJob, s2)) = Inr (Some job, s')"
    by (cases p) simp
  from b obtain q where u: "update_where Jobs
             [''jobId'' \<mapsto> JStr (''#'' @ showId (job0 ''id'') @ categoryInitial upper insertJob @ dateStr today)]
             (\<lambda>r. r ''id'' = job0 ''id'') s1 = Inr q"
    and c: "(case q of (returned, s2) \<Rightarrow>
          Inr (case returned of [] \<Rightarrow> None | updatedJob # _ \<Rightarrow> Some updatedJob, s2)) = (Inr (Some job, s') :: (error \<times> store) + (obj option \<times> store))"
    by (rule sum_case_InrE)
  obtain returned s2 where q: "q = (returned, s2)" by (cases q)
  from c q have r: "(case returned of [] \<Rightarrow> None | updatedJob # _ \<Rightarrow> Some updatedJob) = Some job"
    and s2: "s2 = s'" by simp_all
  note h = returned_head[OF u[unfolded q s2] r]
  show ?thesis using h by simp
qed

lemma updateJob_keeps_code:
  assumes "updateJob ident userId updates s = Inr (job, s')" and "updates ''jobId'' = None"
  shows "map (\<lambda>r. r ''jobId'') (rows s' Jobs) = map (\<lambda>r. r ''jobId'') (rows s Jobs)"
proof -
  from assms(1)[unfolded updateJob_def updateById_def] obtain q where
    q: "update_where Jobs updates (ownedId ident userId) s = Inr q"
    and c: "(case q of (returned, s2) \<Rightarrow>
              case returned of [] \<Rightarrow> Inl (Error ''Job not found'', s2)
              | updated # x \<Rightarrow> Inr (updated, s2)) = Inr (job, s')"
    by (rule sum_case_InrE)
  obtain returned s2 where qq: "q = (returned, s2)" by (cases q)
  from c qq have "s2 = s'" by (cases returned) simp_all
  with q qq have "update_where Jobs updates (ownedId ident userId) s = Inr (returned, s')" by simp
  from update_where_Inr(2)[OF this] show ?thesis
    by (simp add: applySet_Jobs_jobId assms(2) o_def)
qed

lemma createJob_demo:
  "createJob upperAscii demoInsertJob 1 demoToday 0 demoStore = Inr (Some createdJob, createdStore)"
proof -
  have "(case createJob upperAscii demoInsertJob 1 demoToday 0 demoStore of
           Inr (Some job, s1) \<Rightarrow> True | _ \<Rightarrow> False)" by code_simp
  then show ?thesis
    by (auto simp: createdJob_def createdStore_def split: sum.splits option.splits prod.splits)
qed

lemma idsOf_none:
  assumes "t = Customers \<or> t = Jobs \<or> t = Workers"
      and "\<forall>x\<in>set (docRows data t). truthy (x ''id'') \<longrightarrow> Number num (x ''id'') \<noteq> key"
  shows "idsOf num u data s t key = None"
  using assms(1) recordIds_none[OF assms(2)]
  by (auto simp: idsOf_def customerIds_def jobIds_def workerIds_def)

lemma stored_fk_target:
  assumes "importData num u now data s = (Inr x, s')" and "(child, fk, parent) \<in> set fkEdges"
      and "k < length (docRows data child)"
  shows "(mine u s' child ! k) fk =
         (case targetOf num (docRows data parent) ((docRows data child ! k) fk) of
            Some i \<Rightarrow> (mine u s' parent ! i) ''id''
          | None \<Rightarrow> Some JNull)"
proof -
  let ?ps = "docRows data parent" and ?key = "(docRows data child ! k) fk"
  note e = edge_plain[OF assms(2)]
  have st: "(mine u s' child ! k) fk = Some (remap num (idsOf num u data s parent) ?key)"
    by (rule stored_fk[OF assms])
  show ?thesis
  proof (cases "truthy ?key \<and> matching num ?ps ?key \<noteq> []")
    case False
    have "remap num (idsOf num u data s parent) ?key = JNull"
    proof (cases "truthy ?key")
      case True
      with False have "matching num ?ps ?key = []" by simp
      then have "\<forall>x\<in>set ?ps. truthy (x ''id'') \<longrightarrow> Number num (x ''id'') \<noteq> Number num ?key"
        by (auto simp: matching_def filter_empty_conv in_set_conv_nth)
      from idsOf_none[OF e[THEN conjunct2, THEN conjunct2] this]
      show ?thesis by (simp add: remap_def getOrNull_def)
    next
      case False
      then show ?thesis by (simp add: remap_def)
    qed
    moreover have "targetOf num ?ps ?key = None"
      unfolding targetOf_def using False by (rule if_not_P)
    ultimately show ?thesis using st by simp
  next
    case True
    let ?i = "last (matching num ?ps ?key)"
    have mem: "?i \<in> set (matching num ?ps ?key)" using True by simp
    then have i: "?i < length ?ps" and ti: "truthy ((?ps ! ?i) ''id'')"
      and ni: "Number num ((?ps ! ?i) ''id'') = Number num ?key"
      by (auto simp: matching_def)
    have srt: "sorted (matching num ?ps ?key)" by (simp add: matching_def sorted_wrt_filter)
    have later: "\<forall>j. ?i < j \<and> j < length ?ps \<longrightarrow>
               \<not> (truthy ((?ps ! j) ''id'') \<and> Number num ((?ps ! j) ''id'') = Number num ((?ps ! ?i) ''id''))"
    proof (intro allI impI notI)
      fix j assume j: "?i < j \<and> j < length ?ps"
        and m: "truthy ((?ps ! j) ''id'') \<and> Number num ((?ps ! j) ''id'') = Number num ((?ps ! ?i) ''id'')"
      then have "j \<in> set (matching num ?ps ?key)" using ni by (simp add: matching_def)
      then obtain n where n: "n < length (matching num ?ps ?key)" "matching num ?ps ?key ! n = j"
        by (auto simp: in_set_conv_nth)
      have "matching num ?ps ?key ! n \<le> matching num ?ps ?key ! (length (matching num ?ps ?key) - 1)"
        using srt n(1) by (intro sorted_nth_mono) auto
      then have "j \<le> ?i" using n(2) True by (simp add: last_conv_nth)
      with j show False by simp
    qed
    have "remap num (idsOf num u data s parent) ?key = JNum (int (Suc (seq s parent + ?i)))"
      using idsOf_last[OF e[THEN conjunct2, THEN conjunct2] i ti later, where u = u and s = s] True ni
      by (simp add: remap_def getOrNull_def)
    moreover have "(mine u s' parent ! ?i) ''id'' = Some (JNum (int (Suc (seq s parent + ?i))))"
      by (rule stored_id[OF assms(1) e[THEN conjunct2, THEN conjunct1] i])
    moreover have "targetOf num ?ps ?key = Some ?i"
      unfolding targetOf_def using True by (rule if_P)
    ultimately show ?thesis using st by simp
  qed
qed


lemma clashDoc_any_reader:
  "map (\<lambda>r. r ''customerId'') (insertedRows num 1 0 clashDoc demoStore Jobs) =
   map (\<lambda>r. r ''customerId'') (insertedRows exampleReader 1 0 clashDoc demoStore Jobs)"
  by (simp add: insertedRows_def docRows_def clashDoc_def orEmpty_def demoCustomer_def demoJob_def
      demoStore_def jobVals_def customerIds_def customerVals_def remap_def getOrNull_def mkRow_fk)

lemma crossStoreSolo_ok:
  "importData exampleReader 2 0 smallDoc crossStoreSolo =
   (Inr (), snd (importData exampleReader 2 0 smallDoc crossStoreSolo))"
proof -
  have "fst (importData exampleReader 2 0 smallDoc crossStoreSolo) = Inr ()" by code_simp
  then show ?thesis by (simp add: prod_eq_iff)
qed

lemma crossStore_ok:
  "importData exampleReader 2 0 smallDoc crossStore =
   (Inr (), snd (importData exampleReader 2 0 smallDoc crossStore))"
proof -
  have "fst (importData exampleReader 2 0 smallDoc crossStore) = Inr ()" by code_simp
  then show ?thesis by (simp add: prod_eq_iff)
qed
























































section \<open>The claims\<close>

text \<open>
  Claim C1. The call returns an error exactly when a step of the transaction's callback
  throws (a delete or an insert), and then the rows of every table are what they were
  before the call: nothing stays inserted and nothing stays deleted.
\<close>

theorem importData_all_or_nothing:
  "((\<exists>s1. importBody num userId now data s = Inl (e, s1)) \<longleftrightarrow> fst (importData num userId now data s) = Inl e) \<and>
   (fst (importData num userId now data s) = Inl e \<longrightarrow> rows (snd (importData num userId now data s)) = rows s)"
  by (auto simp: importData_def transaction_def split: sum.splits)

theorem importData_all_or_nothing_witness:
  "fst (importData exampleReader 1 0 brokenDoc demoStore) = Inl NotNullViolation \<and>
   rows (snd (importData exampleReader 1 0 brokenDoc demoStore)) = rows demoStore"
  using importData_all_or_nothing[of exampleReader 1 0 brokenDoc demoStore NotNullViolation] brokenDoc_fails
  by simp

text \<open>
  Claim C7, as amended. An import for a user never writes or deletes a row of another
  user: in every table the rows of the other users are what they were, whether the
  import commits or rolls back, and whatever ids they carry. An export contains only
  rows of that user and is the same for two stores that agree on that user's rows.
  The statements of an import name only rows of the user, but the store's foreign key
  check looks at the other users' rows, so whether an import commits can depend on
  them; when it commits, the rows the user ends up with depend on the document and on
  the id sequences only.
\<close>
theorem tenant_isolation:
  "others userId (snd (importData num userId now data s)) t = others userId s t \<and>
   (\<forall>k rs. exportData userId s k = Some rs \<longrightarrow> list_all (owned userId) rs) \<and>
   ((\<forall>t. mine userId s t = mine userId s2 t) \<longrightarrow> exportData userId s = exportData userId s2) \<and>
   (seq s = seq s2 \<and> t \<noteq> Users \<and>
    importData num userId now data s = (Inr x, s') \<and>
    importData num userId now data s2 = (Inr y, s2')
      \<longrightarrow> mine userId s' t = mine userId s2' t)"
proof (intro conjI allI impI)
  show "others userId (snd (importData num userId now data s)) t = others userId s t"
    by (rule importData_others)
next
  fix k rs assume "exportData userId s k = Some rs"
  then show "list_all (owned userId) rs"
    by (auto simp: exportData_def select_where_def list_all_iff split: if_splits)
next
  assume "\<forall>t. mine userId s t = mine userId s2 t"
  then show "exportData userId s = exportData userId s2"
    by (simp add: exportData_def select_where_def mine_def)
next
  assume h: "seq s = seq s2 \<and> t \<noteq> Users \<and>
    importData num userId now data s = (Inr x, s') \<and>
    importData num userId now data s2 = (Inr y, s2')"
  then have "mine userId s' t = insertedRows num userId now data s t"
    and "mine userId s2' t = insertedRows num userId now data s2 t"
    using importData_mine by blast+
  then show "mine userId s' t = mine userId s2' t"
    using h insertedRows_seq[of s s2 num userId now data] by simp
qed

theorem tenant_isolation_witness:
  "others 1 (snd (importData exampleReader 1 0 smallDoc demoStore)) Customers = others 1 demoStore Customers \<and>
   map (\<lambda>r. r ''name'') (others 1 demoStore Customers) = [Some (JStr ''Bob'')] \<and>
   list_all (owned 1) (select_where Customers (owned 1) demoStore) \<and>
   exportData 1 demoStore = exportData 1 demoStoreSolo \<and>
   seq crossStore = seq crossStoreSolo \<and>
   length (rows crossStore Jobs) = 1 \<and> length (rows crossStoreSolo Jobs) = 0 \<and>
   mine 2 (snd (importData exampleReader 2 0 smallDoc crossStore)) Jobs =
   mine 2 (snd (importData exampleReader 2 0 smallDoc crossStoreSolo)) Jobs"
proof -
  have e: "exportData 1 demoStore ''customers'' = Some (select_where Customers (owned 1) demoStore)"
    by (simp add: exportData_def)
  have m: "\<forall>t. mine 1 demoStore t = mine 1 demoStoreSolo t"
    by (simp add: mine_def demoStore_def demoStoreSolo_def owned_def)
  have n: "map (\<lambda>r. r ''name'') (others 1 demoStore Customers) = [Some (JStr ''Bob'')]"
    by (simp add: others_def demoStore_def owned_def)
  have q: "seq crossStore = seq crossStoreSolo" by (simp add: crossStoreSolo_def)
  have l: "length (rows crossStore Jobs) = 1" "length (rows crossStoreSolo Jobs) = 0"
    by code_simp+
  have j: "Jobs \<noteq> Users" by simp
  note a = tenant_isolation[where userId = 1 and num = exampleReader and now = 0 and data = smallDoc
      and s = demoStore and t = Customers and ?s2.0 = demoStoreSolo]
  note b = tenant_isolation[where userId = 2 and num = exampleReader and now = 0 and data = smallDoc
      and s = crossStore and t = Jobs and ?s2.0 = crossStoreSolo
      and s' = "snd (importData exampleReader 2 0 smallDoc crossStore)"
      and s2' = "snd (importData exampleReader 2 0 smallDoc crossStoreSolo)" and x = "()" and y = "()"]
  from a b e m n q l j crossStore_ok crossStoreSolo_ok show ?thesis by blast
qed

theorem tenant_isolation_counterexample:
  "map (mine 1 crossStore) allTables = map (mine 1 crossStoreSolo) allTables \<and>
   map (seq crossStore) allTables = map (seq crossStoreSolo) allTables \<and>
   map (\<lambda>r. r ''userId'') (rows crossStore Jobs) = [Some (JNum 2)] \<and>
   rows crossStoreSolo Jobs = [] \<and>
   fst (importData exampleReader 1 0 Map.empty crossStore) = Inl ForeignKeyViolation \<and>
   fst (importData exampleReader 1 0 Map.empty crossStoreSolo) = Inr ()"
proof -
  have "map (mine 1 crossStore) allTables = map (mine 1 crossStoreSolo) allTables"
    "map (seq crossStore) allTables = map (seq crossStoreSolo) allTables"
    "rows crossStoreSolo Jobs = []"
    by (simp_all add: allTables_def mine_def crossStore_def crossStoreSolo_def owned_def)
  moreover have "map (\<lambda>r. r ''userId'') (rows crossStore Jobs) = [Some (JNum 2)]"
    "fst (importData exampleReader 1 0 Map.empty crossStore) = Inl ForeignKeyViolation"
    "fst (importData exampleReader 1 0 Map.empty crossStoreSolo) = Inr ()"
    by code_simp+
  ultimately show ?thesis by simp
qed

text \<open>
  Claim C10. After a successful import every job row of the user has a NULL
  \<^verbatim>\<open>jobId\<close> column (the job code), whatever the document carried there: the
  property is removed before the insert and nothing computes a new code.
\<close>

theorem import_leaves_jobCode_null:
  assumes "importData num userId now data s = (Inr x, s')"
      and "r \<in> set (rows s' Jobs)" and "owned userId r"
  shows "r ''jobId'' = Some JNull"
proof -
  from assms(2,3) have "r \<in> set (mine userId s' Jobs)" by (simp add: mine_def)
  then have "r \<in> set (insertedRows num userId now data s Jobs)"
    using importData_mine[OF assms(1), of Jobs] by simp
  then obtain j vals k where "jobVals num userId (customerIds num userId data s) j = Some vals"
    and r: "r = mkRow now k Jobs vals"
    unfolding insertedRows_def using newRows_mem by fastforce
  then have "vals ''jobId'' = None" by (auto simp: jobVals_def omit_def)
  then show ?thesis by (simp add: r mkRow_Jobs_jobId)
qed

theorem import_leaves_jobCode_null_witness:
  "fst (importData exampleReader 1 0 smallDoc demoStore) = Inr () \<and>
   owned 1 (last (rows (snd (importData exampleReader 1 0 smallDoc demoStore)) Jobs)) \<and>
   last (rows (snd (importData exampleReader 1 0 smallDoc demoStore)) Jobs) ''jobId'' = Some JNull"
proof -
  obtain res s' where p: "importData exampleReader 1 0 smallDoc demoStore = (res, s')" by (cases "importData exampleReader 1 0 smallDoc demoStore")
  have ok: "res = Inr ()" using smallDoc_ok p by simp
  have "rows (snd (importData exampleReader 1 0 smallDoc demoStore)) Jobs \<noteq> []"
    and "owned 1 (last (rows (snd (importData exampleReader 1 0 smallDoc demoStore)) Jobs))"
    by code_simp+
  then have nonempty: "rows s' Jobs \<noteq> []" and own: "owned 1 (last (rows s' Jobs))"
    by (simp_all add: p)
  from nonempty have "last (rows s' Jobs) \<in> set (rows s' Jobs)" by simp
  from import_leaves_jobCode_null[OF p[unfolded ok] this own] ok own p show ?thesis by simp
qed

text \<open>
  Claim C2, as amended. After a successful import the user's stored rows of the tables
  without a required parent are the copies of the document's rows, in document order.
  For each of the eight foreign keys that the import translates (listed in
  \<open>fkEdges\<close>) the stored key of a row is decided by the key \<open>x\<close> the document row
  carries: when \<open>x\<close> is truthy and some row of the parent list has a truthy id with
  \<^verbatim>\<open>Number(id) = Number(x)\<close>, the stored key is the id the store gave to the copy of
  the last such parent row (\<open>targetOf\<close>); otherwise, that is when \<open>x\<close> is falsy (0,
  null, absent, an empty string, false) or no parent row matches, the stored key is
  NULL. A parent row whose id is falsy is never matched.
\<close>
theorem fk_remap_correct:
  assumes "importData num userId now data s = (Inr x, s')"
      and "(child, fk, parent) \<in> set fkEdges"
      and "k < length (docRows data child)"
  shows "length (mine userId s' child) = length (docRows data child) \<and>
         length (mine userId s' parent) = length (docRows data parent) \<and>
         (mine userId s' child ! k) fk =
         (case targetOf num (docRows data parent) ((docRows data child ! k) fk) of
            Some i \<Rightarrow> (mine userId s' parent ! i) ''id''
          | None \<Rightarrow> Some JNull)"
  using stored_fk_target[OF assms] importData_plain(1)[OF assms(1)] edge_plain[OF assms(2)]
  by simp

theorem fk_remap_correct_witness:
  "targetOf exampleReader (docRows pairDoc Customers) ((docRows pairDoc Jobs ! 1) ''customerId'') = Some 0 \<and>
   (mine 1 (snd (importData exampleReader 1 0 pairDoc demoStore)) Jobs ! 1) ''customerId'' =
   (mine 1 (snd (importData exampleReader 1 0 pairDoc demoStore)) Customers ! 0) ''id'' \<and>
   (mine 1 (snd (importData exampleReader 1 0 pairDoc demoStore)) Customers ! 0) ''name'' = Some (JStr ''Alice'') \<and>
   targetOf exampleReader (docRows clashDoc Customers) ((docRows clashDoc Jobs ! 0) ''customerId'') = None \<and>
   (mine 1 (snd (importData exampleReader 1 0 clashDoc demoStore)) Jobs ! 0) ''customerId'' = Some JNull \<and>
   targetOf exampleReader (docRows clashDoc Customers) ((docRows clashDoc Jobs ! 1) ''customerId'') = Some 2 \<and>
   (mine 1 (snd (importData exampleReader 1 0 clashDoc demoStore)) Jobs ! 1) ''customerId'' =
   (mine 1 (snd (importData exampleReader 1 0 clashDoc demoStore)) Customers ! 2) ''id''"
proof -
  have e: "(Jobs, ''customerId'', Customers) \<in> set fkEdges" by (simp add: fkEdges_def)
  have k: "1 < length (docRows pairDoc Jobs)" "0 < length (docRows clashDoc Jobs)"
    "1 < length (docRows clashDoc Jobs)"
    by code_simp+
  have t: "targetOf exampleReader (docRows pairDoc Customers) ((docRows pairDoc Jobs ! 1) ''customerId'') = Some 0"
    "targetOf exampleReader (docRows clashDoc Customers) ((docRows clashDoc Jobs ! 0) ''customerId'') = None"
    "targetOf exampleReader (docRows clashDoc Customers) ((docRows clashDoc Jobs ! 1) ''customerId'') = Some 2"
    by code_simp+
  have nm: "(mine 1 (snd (importData exampleReader 1 0 pairDoc demoStore)) Customers ! 0) ''name'' = Some (JStr ''Alice'')"
    by code_simp
  have "fst (importData exampleReader 1 0 clashDoc demoStore) = Inr ()" by code_simp
  then have c: "importData exampleReader 1 0 clashDoc demoStore =
                (Inr (), snd (importData exampleReader 1 0 clashDoc demoStore))"
    by (simp add: prod_eq_iff)
  from fk_remap_correct[OF pairDoc_ok e k(1)] fk_remap_correct[OF c e k(2)]
    fk_remap_correct[OF c e k(3)] t nm
  show ?thesis by simp
qed

theorem fk_remap_counterexample:
  "fst (importData exampleReader 1 0 clashDoc demoStore) = Inr () \<and>
   (docRows clashDoc Jobs ! 0) ''customerId'' = (docRows clashDoc Customers ! 0) ''id'' \<and>
   (mine 1 (snd (importData exampleReader 1 0 clashDoc demoStore)) Jobs ! 0) ''customerId'' \<noteq>
   (mine 1 (snd (importData exampleReader 1 0 clashDoc demoStore)) Customers ! 0) ''id'' \<and>
   (docRows clashDoc Jobs ! 1) ''customerId'' = (docRows clashDoc Customers ! 1) ''id'' \<and>
   (mine 1 (snd (importData exampleReader 1 0 clashDoc demoStore)) Jobs ! 1) ''customerId'' \<noteq>
   (mine 1 (snd (importData exampleReader 1 0 clashDoc demoStore)) Customers ! 1) ''id''"
  by code_simp

text \<open>
  Claim C5. After a successful import the user's notes are the copies of the document's
  notes in document order, and the stored \<^verbatim>\<open>referenceId\<close> of each is the document's
  \<^verbatim>\<open>referenceId\<close> translated through the id map that its \<^verbatim>\<open>section\<close> selects:
  the job map for \<^verbatim>\<open>jobs\<close> and \<^verbatim>\<open>workers_attendance\<close>, the customer map for
  \<^verbatim>\<open>customers\<close>, the worker map for \<^verbatim>\<open>workers\<close>, and NULL for every other
  section. (\<open>customerIds\<close>, \<open>jobIds\<close> and \<open>workerIds\<close> are the three maps the import
  builds, by \<open>importInserts_Inr\<close>; translating is \<open>remap\<close>.)
\<close>

theorem note_reference_by_section:
  assumes "importData num userId now data s = (Inr x, s')"
      and "k < length (docRows data Notes)"
  shows "length (mine userId s' Notes) = length (docRows data Notes) \<and>
         (mine userId s' Notes ! k) ''referenceId'' =
         Some (translateBySection num (customerIds num userId data s) (jobIds num userId data s)
                 (workerIds num userId data s)
                 ((docRows data Notes ! k) ''section'') ((docRows data Notes ! k) ''referenceId''))"
proof -
  have n: "Notes \<in> set plainTables" by (simp add: plainTables_def)
  note p = importData_plain[OF assms(1) n]
  show ?thesis
    using p(1) p(2)[OF assms(2)]
    by (simp add: noteVals_def mkRow_fk omit_def newReferenceId_by_section)
qed

theorem note_reference_by_section_witness:
  "(mine 1 (snd (importData exampleReader 1 0 noteDoc demoStore)) Notes ! 0) ''referenceId'' = Some (JNum 2) \<and>
   (mine 1 (snd (importData exampleReader 1 0 noteDoc demoStore)) Notes ! 1) ''referenceId'' = Some (JNum 3) \<and>
   (mine 1 (snd (importData exampleReader 1 0 noteDoc demoStore)) Notes ! 2) ''referenceId'' = Some JNull \<and>
   length (mine 1 (snd (importData exampleReader 1 0 noteDoc demoStore)) Notes) = 3 \<and>
   (mine 1 (snd (importData exampleReader 1 0 noteDoc demoStore)) Jobs ! 0) ''id'' = Some (JNum 2) \<and>
   (mine 1 (snd (importData exampleReader 1 0 noteDoc demoStore)) Customers ! 0) ''id'' = Some (JNum 3)"
proof -
  have l: "length (docRows noteDoc Notes) = 3" by code_simp
  have k: "0 < length (docRows noteDoc Notes)" "1 < length (docRows noteDoc Notes)"
    "2 < length (docRows noteDoc Notes)" by (simp_all add: l)
  have v: "translateBySection exampleReader (customerIds exampleReader 1 noteDoc demoStore) (jobIds exampleReader 1 noteDoc demoStore)
             (workerIds exampleReader 1 noteDoc demoStore)
             ((docRows noteDoc Notes ! 0) ''section'') ((docRows noteDoc Notes ! 0) ''referenceId'') = JNum 2"
     "translateBySection exampleReader (customerIds exampleReader 1 noteDoc demoStore) (jobIds exampleReader 1 noteDoc demoStore)
             (workerIds exampleReader 1 noteDoc demoStore)
             ((docRows noteDoc Notes ! 1) ''section'') ((docRows noteDoc Notes ! 1) ''referenceId'') = JNum 3"
     "translateBySection exampleReader (customerIds exampleReader 1 noteDoc demoStore) (jobIds exampleReader 1 noteDoc demoStore)
             (workerIds exampleReader 1 noteDoc demoStore)
             ((docRows noteDoc Notes ! 2) ''section'') ((docRows noteDoc Notes ! 2) ''referenceId'') = JNull"
    by code_simp+
  have ids: "(mine 1 (snd (importData exampleReader 1 0 noteDoc demoStore)) Jobs ! 0) ''id'' = Some (JNum 2)"
    "(mine 1 (snd (importData exampleReader 1 0 noteDoc demoStore)) Customers ! 0) ''id'' = Some (JNum 3)"
    by code_simp+
  note t = note_reference_by_section[OF noteDoc_ok]
  from t[OF k(1)] t[OF k(2)] t[OF k(3)] v l ids show ?thesis
    by simp
qed

text \<open>
  Claim C4. A key with no entry in its id map is stored as NULL where the column
  allows it: for each of the eight translated foreign keys, after a successful import
  the stored key of such a row is NULL. The loop body treats such a row exactly as the
  same row without the key, so the dangling key itself never makes the step fail. For
  the three tables whose parent key is required, the loop body does nothing for such a
  row and returns normally, so the import goes on.
\<close>

theorem unmapped_key_null_or_skip:
  "(importData num userId now data s = (Inr x, s') \<and> (child, fk, parent) \<in> set fkEdges \<and>
      k < length (docRows data child) \<and>
      idsOf num userId data s parent (Number num ((docRows data child ! k) fk)) = None
      \<longrightarrow> (mine userId s' child ! k) fk = Some JNull) \<and>
   (jobIdMap (Number num (ji ''jobId'')) = None
      \<longrightarrow> importJobImage num userId now jobIdMap ji s = Inr s) \<and>
   (workerIdMap (Number num (wd ''workerId'')) = None
      \<longrightarrow> importWorkerDocument num userId now workerIdMap wd s = Inr s) \<and>
   (customerIdMap (Number num (ci ''customerId'')) = None
      \<longrightarrow> importCustomerImage num userId now customerIdMap ci s = Inr s) \<and>
   (customerIdMap (Number num (j ''customerId'')) = None
      \<longrightarrow> importJob num userId now customerIdMap j =
          importJob num userId now customerIdMap (j(''customerId'' := None))) \<and>
   (jobIdMap (Number num (w ''jobId'')) = None
      \<longrightarrow> importWorker num userId now jobIdMap w = importWorker num userId now jobIdMap (w(''jobId'' := None))) \<and>
   (jobIdMap (Number num (e ''jobId'')) = None
      \<longrightarrow> importExpense num userId now jobIdMap e = importExpense num userId now jobIdMap (e(''jobId'' := None))) \<and>
   (jobIdMap (Number num (i ''jobId'')) = None
      \<longrightarrow> importInventory num userId now jobIdMap i =
          importInventory num userId now jobIdMap (i(''jobId'' := None))) \<and>
   (jobIdMap (Number num (i ''assignedToJobId'')) = None
      \<longrightarrow> importInventory num userId now jobIdMap i =
          importInventory num userId now jobIdMap (i(''assignedToJobId'' := None))) \<and>
   (jobIdMap (Number num (t ''jobId'')) = None
      \<longrightarrow> importTravel num userId now jobIdMap t = importTravel num userId now jobIdMap (t(''jobId'' := None))) \<and>
   (workerIdMap (Number num (a ''workerId'')) = None
      \<longrightarrow> importAttendance num userId now jobIdMap workerIdMap a =
          importAttendance num userId now jobIdMap workerIdMap (a(''workerId'' := None))) \<and>
   (jobIdMap (Number num (a ''jobId'')) = None
      \<longrightarrow> importAttendance num userId now jobIdMap workerIdMap a =
          importAttendance num userId now jobIdMap workerIdMap (a(''jobId'' := None)))"
proof (intro conjI impI)
  assume h: "importData num userId now data s = (Inr x, s') \<and> (child, fk, parent) \<in> set fkEdges \<and>
      k < length (docRows data child) \<and>
      idsOf num userId data s parent (Number num ((docRows data child ! k) fk)) = None"
  then have "(mine userId s' child ! k) fk =
        Some (remap num (idsOf num userId data s parent) ((docRows data child ! k) fk))"
    using stored_fk by blast
  then show "(mine userId s' child ! k) fk = Some JNull"
    using h by (simp add: remap_unmapped)
next
  assume "jobIdMap (Number num (ji ''jobId'')) = None"
  then show "importJobImage num userId now jobIdMap ji s = Inr s"
    by (simp add: importJobImage_def remap_unmapped)
next
  assume "workerIdMap (Number num (wd ''workerId'')) = None"
  then show "importWorkerDocument num userId now workerIdMap wd s = Inr s"
    by (simp add: importWorkerDocument_def remap_unmapped)
next
  assume "customerIdMap (Number num (ci ''customerId'')) = None"
  then show "importCustomerImage num userId now customerIdMap ci s = Inr s"
    by (simp add: importCustomerImage_def remap_unmapped)
next
  assume "customerIdMap (Number num (j ''customerId'')) = None"
  then show "importJob num userId now customerIdMap j =
          importJob num userId now customerIdMap (j(''customerId'' := None))"
    by (simp add: importJob_def remap_unmapped remap_absent omit_upd_same)
next
  assume "jobIdMap (Number num (w ''jobId'')) = None"
  then show "importWorker num userId now jobIdMap w = importWorker num userId now jobIdMap (w(''jobId'' := None))"
    by (simp add: importWorker_def remap_unmapped remap_absent omit_upd_same)
next
  assume "jobIdMap (Number num (e ''jobId'')) = None"
  then show "importExpense num userId now jobIdMap e = importExpense num userId now jobIdMap (e(''jobId'' := None))"
    by (simp add: importExpense_def remap_unmapped remap_absent omit_upd_same fun_eq_iff)
next
  assume "jobIdMap (Number num (i ''jobId'')) = None"
  then show "importInventory num userId now jobIdMap i =
          importInventory num userId now jobIdMap (i(''jobId'' := None))"
    by (simp add: importInventory_def remap_unmapped remap_absent omit_upd_same fun_eq_iff)
next
  assume "jobIdMap (Number num (i ''assignedToJobId'')) = None"
  then show "importInventory num userId now jobIdMap i =
          importInventory num userId now jobIdMap (i(''assignedToJobId'' := None))"
    by (simp add: importInventory_def remap_unmapped remap_absent omit_upd_same fun_eq_iff)
next
  assume "jobIdMap (Number num (t ''jobId'')) = None"
  then show "importTravel num userId now jobIdMap t = importTravel num userId now jobIdMap (t(''jobId'' := None))"
    by (simp add: importTravel_def remap_unmapped remap_absent omit_upd_same fun_eq_iff)
next
  assume "workerIdMap (Number num (a ''workerId'')) = None"
  then show "importAttendance num userId now jobIdMap workerIdMap a =
          importAttendance num userId now jobIdMap workerIdMap (a(''workerId'' := None))"
    by (simp add: importAttendance_def remap_unmapped remap_absent omit_upd_same fun_eq_iff)
next
  assume "jobIdMap (Number num (a ''jobId'')) = None"
  then show "importAttendance num userId now jobIdMap workerIdMap a =
          importAttendance num userId now jobIdMap workerIdMap (a(''jobId'' := None))"
    by (simp add: importAttendance_def remap_unmapped remap_absent omit_upd_same fun_eq_iff)
qed

theorem unmapped_key_null_or_skip_witness:
  "fst (importData exampleReader 1 0 danglingDoc demoStore) = Inr () \<and>
   (docRows danglingDoc Jobs ! 0) ''customerId'' = Some (JNum 99) \<and>
   (mine 1 (snd (importData exampleReader 1 0 danglingDoc demoStore)) Jobs ! 0) ''customerId'' = Some JNull \<and>
   length (docRows danglingDoc JobImages) = 1 \<and>
   length (mine 1 (snd (importData exampleReader 1 0 danglingDoc demoStore)) JobImages) = 0 \<and>
   importJobImage exampleReader 1 0 (jobIds exampleReader 1 danglingDoc demoStore) (docRows danglingDoc JobImages ! 0) demoStore
     = Inr demoStore"
proof -
  have e: "(Jobs, ''customerId'', Customers) \<in> set fkEdges" by (simp add: fkEdges_def)
  have k: "0 < length (docRows danglingDoc Jobs)" by code_simp
  have u: "idsOf exampleReader 1 danglingDoc demoStore Customers (Number exampleReader ((docRows danglingDoc Jobs ! 0) ''customerId'')) = None"
    by code_simp
  have u2: "jobIds exampleReader 1 danglingDoc demoStore (Number exampleReader ((docRows danglingDoc JobImages ! 0) ''jobId'')) = None"
    by code_simp
  have c: "fst (importData exampleReader 1 0 danglingDoc demoStore) = Inr ()"
    "(docRows danglingDoc Jobs ! 0) ''customerId'' = Some (JNum 99)"
    "length (docRows danglingDoc JobImages) = 1"
    "length (mine 1 (snd (importData exampleReader 1 0 danglingDoc demoStore)) JobImages) = 0"
    by code_simp+
  note t = unmapped_key_null_or_skip[of exampleReader 1 0 danglingDoc demoStore "()"
      "snd (importData exampleReader 1 0 danglingDoc demoStore)" Jobs "''customerId''" Customers 0
      "jobIds exampleReader 1 danglingDoc demoStore" "docRows danglingDoc JobImages ! 0"]
  from t danglingDoc_ok e k u u2 c show ?thesis by blast
qed

text \<open>
  Claim C6, as amended. Importing a document with no rows (no lists, or only empty
  ones) for a user succeeds, leaves that user no row in any entity table and leaves
  every other user's rows and the users table as they were, provided no row of another
  user refers, through a foreign key column, to a row of this user. (When such a row
  exists, the delete of the referenced row is refused by the foreign key constraint and
  the import rolls back.)
\<close>

theorem empty_import_clears_owner:
  assumes "noForeignRefs userId s" and "\<forall>t. docRows data t = []"
  shows "fst (importData num userId now data s) = Inr () \<and>
         (\<forall>t. t \<noteq> Users \<longrightarrow> mine userId (snd (importData num userId now data s)) t = []) \<and>
         (\<forall>t. others userId (snd (importData num userId now data s)) t = others userId s t) \<and>
         rows (snd (importData num userId now data s)) Users = rows s Users"
proof -
  from deleteAll_ok[OF assms(1)] obtain s1 where d: "deleteAll userId s = Inr s1" by blast
  have b: "importBody num userId now data s = Inr s1"
    by (simp add: importBody_def d bindE_def importInserts_empty[OF assms(2)])
  then have i: "importData num userId now data s = (Inr (), s1)"
    by (simp add: importData_def transaction_def)
  have r: "rows s1 t = (if t = Users then rows s t else others userId s t)" for t
    using importData_Inr(1)[OF i, of t] insertedRows_empty[OF assms(2)] by simp
  have "mine userId s1 t = []" if "t \<noteq> Users" for t
    using that by (simp add: mine_def r others_def)
  moreover have "others userId s1 t = others userId s t" for t
    using importData_others[of userId num now data s t] i by simp
  ultimately show ?thesis using i r[of Users] by simp
qed

theorem empty_import_clears_owner_witness:
  "noForeignRefs 1 demoStore \<and>
   length (mine 1 demoStore Customers) = 1 \<and> length (mine 1 demoStore Jobs) = 1 \<and>
   fst (importData exampleReader 1 0 Map.empty demoStore) = Inr () \<and>
   mine 1 (snd (importData exampleReader 1 0 Map.empty demoStore)) Customers = [] \<and>
   mine 1 (snd (importData exampleReader 1 0 Map.empty demoStore)) Jobs = [] \<and>
   others 1 (snd (importData exampleReader 1 0 Map.empty demoStore)) Customers = others 1 demoStore Customers"
proof -
  have n: "noForeignRefs 1 demoStore" by code_simp
  have e: "\<forall>t. docRows Map.empty t = []" by (simp add: docRows_def orEmpty_def)
  have l: "length (mine 1 demoStore Customers) = 1" "length (mine 1 demoStore Jobs) = 1"
    by code_simp+
  from empty_import_clears_owner[OF n e, where now = 0 and num = exampleReader] n l show ?thesis by simp
qed

theorem empty_import_counterexample:
  "fst (importData exampleReader 1 0 Map.empty crossStore) = Inl ForeignKeyViolation \<and>
   length (mine 1 crossStore Customers) = 1 \<and>
   length (mine 1 (snd (importData exampleReader 1 0 Map.empty crossStore)) Customers) = 1"
  by code_simp




text \<open>
  Claim C8, as amended. \<^verbatim>\<open>createJob\<close> sets the job code once, to the decimal count
  of the user's jobs before the insert plus one, followed by the upper-cased first
  character of the category given in the request (\<open>X\<close> when the request gives none,
  also when the column's default category is then stored) and the date as DDMMYYYY. The
  older copy of \<^verbatim>\<open>createJob\<close> in the repository uses \<open>#\<close> and the row's database id
  in place of the count. \<^verbatim>\<open>updateJob\<close> leaves the code of every job as it is when
  the update carries no \<^verbatim>\<open>jobId\<close> property; nothing prevents an update that carries
  one from overwriting the code.
\<close>

theorem jobCode_set_at_creation:
  "(createJob upper insertJob userId today now s = Inr (Some job, s') \<longrightarrow>
      job ''jobId'' =
      Some (JStr (showNat (length (mine userId s Jobs) + 1) @ categoryInitial upper insertJob @ dateStr today))) \<and>
   (createJobById upper insertJob userId today now s = Inr (Some job, s') \<longrightarrow>
      job ''jobId'' =
      Some (JStr (''#'' @ showId (job ''id'') @ categoryInitial upper insertJob @ dateStr today))) \<and>
   (updateJob ident userId updates s = Inr (job, s') \<and> updates ''jobId'' = None \<longrightarrow>
      map (\<lambda>r. r ''jobId'') (rows s' Jobs) = map (\<lambda>r. r ''jobId'') (rows s Jobs))"
proof (intro conjI impI)
  assume "createJob upper insertJob userId today now s = Inr (Some job, s')"
  then show "job ''jobId'' =
      Some (JStr (showNat (length (mine userId s Jobs) + 1) @ categoryInitial upper insertJob @ dateStr today))"
    by (rule createJob_code)
next
  assume "createJobById upper insertJob userId today now s = Inr (Some job, s')"
  then show "job ''jobId'' =
      Some (JStr (''#'' @ showId (job ''id'') @ categoryInitial upper insertJob @ dateStr today))"
    by (rule createJobById_code)
next
  assume "updateJob ident userId updates s = Inr (job, s') \<and> updates ''jobId'' = None"
  then show "map (\<lambda>r. r ''jobId'') (rows s' Jobs) = map (\<lambda>r. r ''jobId'') (rows s Jobs)"
    using updateJob_keeps_code by blast
qed

theorem jobCode_set_at_creation_witness:
  "createJob upperAscii demoInsertJob 1 demoToday 0 demoStore = Inr (Some createdJob, createdStore) \<and>
   length (mine 1 demoStore Jobs) = 1 \<and>
   createdJob ''jobId'' = Some (JStr ''2E05012026'') \<and>
   (case updateJob 2 1 [''status'' \<mapsto> JStr ''completed''] createdStore of
      Inr (job, s2) \<Rightarrow> map (\<lambda>r. r ''jobId'') (rows s2 Jobs) | Inl e \<Rightarrow> []) =
   map (\<lambda>r. r ''jobId'') (rows createdStore Jobs) \<and>
   map (\<lambda>r. r ''jobId'') (rows createdStore Jobs) = [Some (JStr ''1I01012026''), Some (JStr ''2E05012026'')]"
proof -
  have v: "showNat (length (mine 1 demoStore Jobs) + 1) @ categoryInitial upperAscii demoInsertJob @ dateStr demoToday
           = ''2E05012026''"
    and l: "length (mine 1 demoStore Jobs) = 1"
    and c: "map (\<lambda>r. r ''jobId'') (rows createdStore Jobs) = [Some (JStr ''1I01012026''), Some (JStr ''2E05012026'')]"
    by code_simp+
  have "(case updateJob 2 1 [''status'' \<mapsto> JStr ''completed''] createdStore of
           Inr (job, s2) \<Rightarrow> True | Inl e \<Rightarrow> False)" by code_simp
  then obtain job2 s2 where
    u: "updateJob 2 1 [''status'' \<mapsto> JStr ''completed''] createdStore = Inr (job2, s2)"
    by (auto split: sum.splits)
  note t1 = jobCode_set_at_creation[where insertJob = demoInsertJob and userId = 1 and today = demoToday
      and now = 0 and s = demoStore and job = createdJob and s' = createdStore]
  note t2 = jobCode_set_at_creation[where ident = 2 and userId = 1 and s = createdStore and job = job2
      and s' = s2 and updates = "[''status'' \<mapsto> JStr ''completed'']"]
  from t2 u have k: "map (\<lambda>r. r ''jobId'') (rows s2 Jobs) = map (\<lambda>r. r ''jobId'') (rows createdStore Jobs)"
    by simp
  from t1 createJob_demo v have "createdJob ''jobId'' = Some (JStr ''2E05012026'')" by simp
  with k createJob_demo u l c show ?thesis by simp
qed

theorem jobCode_counterexample:
  "(case createJob upperAscii demoInsertJob 1 demoToday 0 demoStore of
      Inr (Some job, s1) \<Rightarrow>
        (job ''jobId'',
         case updateJob 2 1 [''jobId'' \<mapsto> JStr ''changed''] s1 of
           Inr (job', s2) \<Rightarrow> map (\<lambda>r. r ''jobId'') (rows s2 Jobs)
         | Inl e \<Rightarrow> [])
    | _ \<Rightarrow> (None, [])) =
   (Some (JStr ''2E05012026''), [Some (JStr ''1I01012026''), Some (JStr ''changed'')]) \<and>
   (case createJob upperAscii (demoInsertJob(''category'' := None)) 1 demoToday 0 demoStore of
      Inr (Some job, s1) \<Rightarrow> [job ''jobId'', job ''category'']
    | _ \<Rightarrow> []) = [Some (JStr ''2X05012026''), Some (JStr ''Interior painting'')]"
  by code_simp




end
